theory Spec2Isabelle
  imports Main "HOL-Library.AList" "HOL-Library.Sublist" "HOL-Library.Multiset"
begin

section \<open>Rows, values and dates\<close>

text \<open>
  The pages receive rows from the hosted backend as untyped JSON objects. A row is an
  association list from field names to values; a field that is not in the list reads as
  \<open>undefined\<close> (\<open>None\<close>). Numbers are integers: no modelled path does floating-point
  arithmetic on a field.
\<close>

datatype jsval = JNull | JStr string | JNum int | JBool bool

type_synonym row = "(string \<times> jsval) list"

definition fld :: "row \<Rightarrow> string \<Rightarrow> jsval option" where
  "fld r k = map_of r k"

text \<open>
  \<open>new Date(v).getTime()\<close>: the time value in milliseconds, \<open>None\<close> for NaN (an invalid
  date). Parsing of a date string is the engine's \<open>Date.parse\<close>, taken as the parameter
  \<open>dp\<close>. \<open>null\<close> converts to the number 0, \<open>undefined\<close> to NaN, a boolean to 0 or 1, and a
  number is clipped to the range of time values.
\<close>

definition time_clip :: "int \<Rightarrow> int option" where
  "time_clip n = (if \<bar>n\<bar> \<le> 8640000000000000 then Some n else None)"

fun date_getTime :: "(string \<Rightarrow> int option) \<Rightarrow> jsval option \<Rightarrow> int option" where
  "date_getTime dp None = None"
| "date_getTime dp (Some JNull) = Some 0"
| "date_getTime dp (Some (JStr s)) = dp s"
| "date_getTime dp (Some (JNum n)) = time_clip n"
| "date_getTime dp (Some (JBool b)) = Some (if b then 1 else 0)"

text \<open>Subtraction of two numbers, NaN when either operand is NaN.\<close>

fun num_sub :: "int option \<Rightarrow> int option \<Rightarrow> int option" where
  "num_sub (Some x) (Some y) = Some (x - y)"
| "num_sub _ _ = None"

text \<open>\<open>a <= b\<close> on two numbers: false when either is NaN.\<close>

fun time_le :: "int option \<Rightarrow> int option \<Rightarrow> bool" where
  "time_le (Some a) (Some b) = (a \<le> b)"
| "time_le _ _ = False"

section \<open>Array.prototype.sort\<close>

text \<open>
  The comparator returns a number (\<open>None\<close> is NaN); the sort reads NaN as \<open>+0\<close>. The
  sort is stable. For a comparator that orders its inputs consistently the result is the
  one stable sorted permutation, whatever algorithm the engine runs; the model is insertion
  sort. With NaN keys the order is left to the engine, and no theorem below depends on
  where such an element lands.
\<close>

definition sort_compare :: "('a \<Rightarrow> 'a \<Rightarrow> int option) \<Rightarrow> 'a \<Rightarrow> 'a \<Rightarrow> int" where
  "sort_compare c a b = (case c a b of None \<Rightarrow> 0 | Some v \<Rightarrow> v)"

fun insert_sorted :: "('a \<Rightarrow> 'a \<Rightarrow> int option) \<Rightarrow> 'a \<Rightarrow> 'a list \<Rightarrow> 'a list" where
  "insert_sorted c x [] = [x]"
| "insert_sorted c x (y # ys) =
     (if sort_compare c x y \<le> 0 then x # y # ys else y # insert_sorted c x ys)"

fun array_sort :: "('a \<Rightarrow> 'a \<Rightarrow> int option) \<Rightarrow> 'a list \<Rightarrow> 'a list" where
  "array_sort c [] = []"
| "array_sort c (x # xs) = insert_sorted c x (array_sort c xs)"

section \<open>Queries and responses\<close>

text \<open>
  A query is what the builder chain \<open>from(..).select('*').eq(..).or(..).gte(..).order(..).limit(..)\<close>
  describes. The argument of \<open>or\<close> is the list of its comma-separated conditions; team
  identifiers are UUIDs and contain no separator of that syntax.
\<close>

datatype filter_expr = FEq string string | FGte string string | FOr "filter_expr list"

record query =
  q_table :: string
  q_filters :: "filter_expr list"
  q_order :: "(string \<times> bool) option"
  q_limit :: "nat option"

definition from_q :: "string \<Rightarrow> query" where
  "from_q t = \<lparr>q_table = t, q_filters = [], q_order = None, q_limit = None\<rparr>"

definition eq_q :: "string \<Rightarrow> string \<Rightarrow> query \<Rightarrow> query" where
  "eq_q k v q = q\<lparr>q_filters := q_filters q @ [FEq k v]\<rparr>"

definition gte_q :: "string \<Rightarrow> string \<Rightarrow> query \<Rightarrow> query" where
  "gte_q k v q = q\<lparr>q_filters := q_filters q @ [FGte k v]\<rparr>"

definition or_q :: "filter_expr list \<Rightarrow> query \<Rightarrow> query" where
  "or_q fs q = q\<lparr>q_filters := q_filters q @ [FOr fs]\<rparr>"

definition order_q :: "string \<Rightarrow> bool \<Rightarrow> query \<Rightarrow> query" where
  "order_q k ascending q = q\<lparr>q_order := Some (k, ascending)\<rparr>"

definition limit_q :: "nat \<Rightarrow> query \<Rightarrow> query" where
  "limit_q n q = q\<lparr>q_limit := Some n\<rparr>"

text \<open>
  The awaited result of a query is an object with \<open>data\<close> and \<open>error\<close>. The client resolves
  a failed query with \<open>data = null\<close> and the error object, and a successful one with the
  rows and \<open>error = null\<close>.
\<close>

record pg_error =
  err_code :: string
  err_message :: string

record response =
  data :: "row list option"
  error :: "pg_error option"

definition fails_with :: "response \<Rightarrow> pg_error \<Rightarrow> bool" where
  "fails_with r e = (r = \<lparr>data = None, error = Some e\<rparr>)"

definition returns_rows :: "response \<Rightarrow> row list \<Rightarrow> bool" where
  "returns_rows r rows = (r = \<lparr>data = Some rows, error = None\<rparr>)"

datatype log_level = LogError | LogWarn

type_synonym console = "(log_level \<times> string \<times> pg_error) list"

section \<open>Player schedule page: loadData\<close>

record Team =
  t_id :: string
  t_name :: string

record player_page =
  schedules :: "row list"
  error_state :: "string option"
  loading :: bool
  console_out :: console

definition practice_query :: "string \<Rightarrow> query" where
  "practice_query tid =
     order_q ''start_time'' True (eq_q ''team_id'' tid (from_q ''practice_schedules''))"

definition meeting_query :: "string \<Rightarrow> query" where
  "meeting_query tid =
     order_q ''start_time'' True (eq_q ''team_id'' tid (from_q ''meeting_schedules''))"

definition game_query :: "string \<Rightarrow> query" where
  "game_query tid =
     order_q ''start_time'' True
       (or_q [FEq ''team1_id'' tid, FEq ''team2_id'' tid] (from_q ''schedules''))"

text \<open>The object literals pushed for each source: the row spread, then the added fields.\<close>

definition practice_event :: "row \<Rightarrow> row" where
  "practice_event schedule =
     AList.update ''source_table'' (JStr ''practice_schedules'')
       (AList.update ''type'' (JStr ''practice'') schedule)"

definition meeting_event :: "row \<Rightarrow> row" where
  "meeting_event schedule =
     AList.update ''source_table'' (JStr ''meeting_schedules'')
       (AList.update ''type'' (JStr ''meeting'') schedule)"

definition game_event :: "Team \<Rightarrow> row \<Rightarrow> row" where
  "game_event currentTeam schedule =
     AList.update ''team_id'' (JStr (t_id currentTeam))
       (AList.update ''source_table'' (JStr ''schedules'')
         (AList.update ''type'' (JStr ''game'') schedule))"

text \<open>\<open>if (rows) rows.forEach(r => all.push(f r))\<close>: nothing is pushed when \<open>data\<close> is null.\<close>

definition push_all :: "(row \<Rightarrow> 'a) \<Rightarrow> row list option \<Rightarrow> 'a list" where
  "push_all f d = (case d of None \<Rightarrow> [] | Some rows \<Rightarrow> map f rows)"

definition log_if :: "log_level \<Rightarrow> string \<Rightarrow> pg_error option \<Rightarrow> console \<Rightarrow> console" where
  "log_if lv label e out = (case e of None \<Rightarrow> out | Some err \<Rightarrow> out @ [(lv, label, err)])"

definition start_ms :: "(string \<Rightarrow> int option) \<Rightarrow> row \<Rightarrow> int option" where
  "start_ms dp a = date_getTime dp (fld a ''start_time'')"

definition by_start_time :: "(string \<Rightarrow> int option) \<Rightarrow> row \<Rightarrow> row \<Rightarrow> int option" where
  "by_start_time dp a b = num_sub (start_ms dp a) (start_ms dp b)"

text \<open>The array \<open>allSchedules\<close> before it is sorted: practices, then meetings, then games.\<close>

definition allSchedules :: "(query \<Rightarrow> response) \<Rightarrow> Team \<Rightarrow> row list" where
  "allSchedules exec team =
     push_all practice_event (data (exec (practice_query (t_id team))))
     @ push_all meeting_event (data (exec (meeting_query (t_id team))))
     @ push_all (game_event team) (data (exec (game_query (t_id team))))"

text \<open>
  \<open>loadData\<close> from its step 5 on, given the team found by steps 1 to 4 (\<open>None\<close> when the
  player has no team). \<open>exec\<close> is the backend: it answers each query with a response. No
  statement of the block throws, so the \<open>catch\<close> clause is not reached from it; the
  \<open>finally\<close> clause clears \<open>loading\<close>.
\<close>

definition loadData ::
  "(string \<Rightarrow> int option) \<Rightarrow> (query \<Rightarrow> response) \<Rightarrow> Team option \<Rightarrow> player_page \<Rightarrow> player_page" where
  "loadData dp exec currentTeam st =
     (let st1 = st\<lparr>loading := True, error_state := None\<rparr> in
      (case currentTeam of
         Some team \<Rightarrow>
           (let out = log_if LogError ''Game schedules error:'' (error (exec (game_query (t_id team))))
                        (log_if LogError ''Meeting schedules error:'' (error (exec (meeting_query (t_id team))))
                          (log_if LogError ''Practice schedules error:'' (error (exec (practice_query (t_id team))))
                            (console_out st1)));
                sortedSchedules = array_sort (by_start_time dp) (allSchedules exec team)
            in st1\<lparr>console_out := out, schedules := sortedSchedules, loading := False\<rparr>)
       | None \<Rightarrow> st1\<lparr>schedules := [], loading := False\<rparr>))"

text \<open>The type filter of the page: \<open>schedules.filter(..)\<close> with the active filter.\<close>

definition filteredSchedules :: "string \<Rightarrow> row list \<Rightarrow> row list" where
  "filteredSchedules activeFilter scheds =
     filter (\<lambda>schedule. if activeFilter = ''all'' then True
                         else fld schedule ''type'' = Some (JStr activeFilter)) scheds"

text \<open>
  \<open>isUpcoming\<close>: the comparison of two dates compares their time values and is false when
  either is NaN. The function reads the clock itself (\<open>new Date()\<close>) on every call; \<open>now\<close>
  is the time value of that reading.
\<close>

definition isUpcoming :: "(string \<Rightarrow> int option) \<Rightarrow> int \<Rightarrow> jsval option \<Rightarrow> bool" where
  "isUpcoming dp now timestamp =
     (case date_getTime dp timestamp of None \<Rightarrow> False | Some t \<Rightarrow> t > now)"

section \<open>Player dashboard: upcoming events of fetchPlayerData\<close>

definition dash_practice_query :: "string \<Rightarrow> string \<Rightarrow> query" where
  "dash_practice_query currentDate tid =
     limit_q 10 (order_q ''start_time'' True
       (gte_q ''start_time'' currentDate (eq_q ''team_id'' tid (from_q ''practice_schedules''))))"

definition dash_meeting_query :: "string \<Rightarrow> string \<Rightarrow> query" where
  "dash_meeting_query currentDate tid =
     limit_q 10 (order_q ''start_time'' True
       (gte_q ''start_time'' currentDate (eq_q ''team_id'' tid (from_q ''meeting_schedules''))))"

definition dash_game_query :: "string \<Rightarrow> string \<Rightarrow> query" where
  "dash_game_query currentDate tid =
     limit_q 10 (order_q ''start_time'' True
       (gte_q ''start_time'' currentDate
         (or_q [FEq ''team1_id'' tid, FEq ''team2_id'' tid] (from_q ''schedules''))))"

definition dash_event :: "string \<Rightarrow> row \<Rightarrow> row" where
  "dash_event ty event = AList.update ''type'' (JStr ty) event"

text \<open>\<open>if (rows && rows.length > 0) rows.forEach(..)\<close>\<close>

definition push_nonempty :: "(row \<Rightarrow> 'a) \<Rightarrow> row list option \<Rightarrow> 'a list" where
  "push_nonempty f d =
     (case d of None \<Rightarrow> [] | Some rows \<Rightarrow> if length rows > 0 then map f rows else [])"

text \<open>The events the three dashboard queries bring, tagged, in the order they are pushed.\<close>

definition dash_allEvents :: "(query \<Rightarrow> response) \<Rightarrow> string \<Rightarrow> Team \<Rightarrow> row list" where
  "dash_allEvents exec currentDate team =
     push_nonempty (dash_event ''practice'') (data (exec (dash_practice_query currentDate (t_id team))))
     @ push_nonempty (dash_event ''meeting'') (data (exec (dash_meeting_query currentDate (t_id team))))
     @ push_nonempty (dash_event ''game'') (data (exec (dash_game_query currentDate (t_id team))))"

text \<open>
  Step 5 of \<open>fetchPlayerData\<close>: the value passed to \<open>setUpcomingEvents\<close>, for the team
  found by step 3 and \<open>currentDate = new Date().toISOString()\<close>.
\<close>

definition fetchPlayerData ::
  "(string \<Rightarrow> int option) \<Rightarrow> (query \<Rightarrow> response) \<Rightarrow> string \<Rightarrow> Team \<Rightarrow> row list" where
  "fetchPlayerData dp exec currentDate team =
     take 5 (array_sort (by_start_time dp) (dash_allEvents exec currentDate team))"

section \<open>Coach schedule page: fetchAllSchedules\<close>

record CombinedSchedule =
  cs_id :: "jsval option"
  cs_type :: string
  cs_title :: "jsval option"
  cs_description :: "jsval option"
  cs_start_time :: "jsval option"
  cs_end_time :: "jsval option"
  cs_location :: "jsval option"
  cs_subtype :: "jsval option"
  cs_originalData :: row

record coach_page =
  c_schedules :: "CombinedSchedule list"
  c_error :: "string option"
  c_loading :: bool
  c_console :: console

definition coach_game_query :: "string \<Rightarrow> query" where
  "coach_game_query teamId =
     order_q ''start_time'' True (eq_q ''team_id'' teamId (from_q ''game_schedules''))"

definition combined_practice :: "row \<Rightarrow> CombinedSchedule" where
  "combined_practice practice =
     \<lparr>cs_id = fld practice ''id'', cs_type = ''practice'', cs_title = fld practice ''title'',
      cs_description = fld practice ''description'', cs_start_time = fld practice ''start_time'',
      cs_end_time = fld practice ''end_time'', cs_location = fld practice ''location'',
      cs_subtype = None, cs_originalData = practice\<rparr>"

definition combined_meeting :: "row \<Rightarrow> CombinedSchedule" where
  "combined_meeting meeting =
     \<lparr>cs_id = fld meeting ''id'', cs_type = ''meeting'', cs_title = fld meeting ''title'',
      cs_description = fld meeting ''description'', cs_start_time = fld meeting ''start_time'',
      cs_end_time = fld meeting ''end_time'', cs_location = fld meeting ''location'',
      cs_subtype = fld meeting ''meeting_type'', cs_originalData = meeting\<rparr>"

definition combined_game :: "row \<Rightarrow> CombinedSchedule" where
  "combined_game game =
     \<lparr>cs_id = fld game ''id'', cs_type = ''game'', cs_title = fld game ''title'',
      cs_description = fld game ''description'', cs_start_time = fld game ''start_time'',
      cs_end_time = fld game ''end_time'', cs_location = fld game ''location'',
      cs_subtype = None, cs_originalData = game\<rparr>"

definition cs_start_ms :: "(string \<Rightarrow> int option) \<Rightarrow> CombinedSchedule \<Rightarrow> int option" where
  "cs_start_ms dp a = date_getTime dp (cs_start_time a)"

definition by_cs_start_time ::
  "(string \<Rightarrow> int option) \<Rightarrow> CombinedSchedule \<Rightarrow> CombinedSchedule \<Rightarrow> int option" where
  "by_cs_start_time dp a b = num_sub (cs_start_ms dp a) (cs_start_ms dp b)"

text \<open>\<open>if (e && e.code !== '42P01') console.warn(label, e)\<close>\<close>

definition warn_unless_missing :: "string \<Rightarrow> pg_error option \<Rightarrow> console \<Rightarrow> console" where
  "warn_unless_missing label e out =
     (case e of None \<Rightarrow> out
      | Some err \<Rightarrow> if err_code err \<noteq> ''42P01'' then out @ [(LogWarn, label, err)] else out)"

definition combinedSchedules :: "(query \<Rightarrow> response) \<Rightarrow> string \<Rightarrow> CombinedSchedule list" where
  "combinedSchedules exec teamId =
     push_all combined_practice (data (exec (practice_query teamId)))
     @ push_all combined_meeting (data (exec (meeting_query teamId)))
     @ push_all combined_game (data (exec (coach_game_query teamId)))"

text \<open>
  \<open>fetchAllSchedules\<close>: the three queries are awaited one after the other. A practice
  error is thrown and caught by the function's own \<open>catch\<close>, which logs it and sets the
  error message; the schedules of the page stay as they were. The \<open>finally\<close> clause clears
  \<open>loading\<close>.
\<close>

definition fetchAllSchedules ::
  "(string \<Rightarrow> int option) \<Rightarrow> (query \<Rightarrow> response) \<Rightarrow> string \<Rightarrow> coach_page \<Rightarrow> coach_page" where
  "fetchAllSchedules dp exec teamId st =
     (case error (exec (practice_query teamId)) of
        Some practiceError \<Rightarrow>
          st\<lparr>c_console := c_console st @ [(LogError, ''Error fetching schedules:'', practiceError)],
             c_error := Some ''Failed to load schedules.'',
             c_loading := False\<rparr>
      | None \<Rightarrow>
          (let out1 = warn_unless_missing ''Meeting schedules error:''
                        (error (exec (meeting_query teamId))) (c_console st);
               out2 = warn_unless_missing ''Game schedules error:''
                        (error (exec (coach_game_query teamId))) out1
           in st\<lparr>c_console := out2,
                 c_schedules := array_sort (by_cs_start_time dp) (combinedSchedules exec teamId),
                 c_loading := False\<rparr>))"

text \<open>
  The filter of the coach page applies the type filter, then the search term. A method
  call on a value that has no such method raises a TypeError; \<open>lc\<close> is
  \<open>String.prototype.toLowerCase\<close> and \<open>includes\<close> is the test for a contiguous substring.
\<close>

datatype js_exn = TypeError

fun includes_lower :: "(string \<Rightarrow> string) \<Rightarrow> string \<Rightarrow> jsval option \<Rightarrow> js_exn + bool" where
  "includes_lower lc q (Some (JStr s)) = Inr (sublist q (lc s))"
| "includes_lower lc q _ = Inl TypeError"

fun opt_includes_lower :: "(string \<Rightarrow> string) \<Rightarrow> string \<Rightarrow> jsval option \<Rightarrow> js_exn + bool" where
  "opt_includes_lower lc q None = Inr False"
| "opt_includes_lower lc q (Some JNull) = Inr False"
| "opt_includes_lower lc q (Some (JStr s)) = Inr (sublist q (lc s))"
| "opt_includes_lower lc q _ = Inl TypeError"

definition schedule_matches ::
  "(string \<Rightarrow> string) \<Rightarrow> string \<Rightarrow> string \<Rightarrow> CombinedSchedule \<Rightarrow> js_exn + bool" where
  "schedule_matches lc flt searchTerm schedule =
     (if flt \<noteq> ''all'' \<and> cs_type schedule \<noteq> flt then Inr False
      else if searchTerm \<noteq> [] then
        (let searchLower = lc searchTerm in
         (case includes_lower lc searchLower (cs_title schedule) of
            Inl e \<Rightarrow> Inl e
          | Inr True \<Rightarrow> Inr True
          | Inr False \<Rightarrow>
              (case opt_includes_lower lc searchLower (cs_description schedule) of
                 Inl e \<Rightarrow> Inl e
               | Inr True \<Rightarrow> Inr True
               | Inr False \<Rightarrow> opt_includes_lower lc searchLower (cs_location schedule))))
      else Inr True)"

fun filter_exn :: "('a \<Rightarrow> js_exn + bool) \<Rightarrow> 'a list \<Rightarrow> js_exn + 'a list" where
  "filter_exn p [] = Inr []"
| "filter_exn p (x # xs) =
     (case p x of
        Inl e \<Rightarrow> Inl e
      | Inr b \<Rightarrow> (case filter_exn p xs of
                    Inl e \<Rightarrow> Inl e
                  | Inr ys \<Rightarrow> Inr (if b then x # ys else ys)))"

definition coach_filteredSchedules ::
  "(string \<Rightarrow> string) \<Rightarrow> string \<Rightarrow> string \<Rightarrow> CombinedSchedule list \<Rightarrow> js_exn + CombinedSchedule list" where
  "coach_filteredSchedules lc flt searchTerm scheds =
     filter_exn (schedule_matches lc flt searchTerm) scheds"

section \<open>Player schedule page: the rendered cards\<close>

text \<open>Truthiness of a value, and whether it is a string (only a string has \<open>split\<close>).\<close>

fun truthy :: "jsval option \<Rightarrow> bool" where
  "truthy None = False"
| "truthy (Some JNull) = False"
| "truthy (Some (JStr s)) = (s \<noteq> [])"
| "truthy (Some (JNum n)) = (n \<noteq> 0)"
| "truthy (Some (JBool b)) = b"

fun is_string :: "jsval option \<Rightarrow> bool" where
  "is_string (Some (JStr s)) = True"
| "is_string _ = False"

text \<open>
  \<open>timestamp.split('T')[0]\<close> is the text before the first \<open>T\<close>. \<open>getTimeFromTimestamp\<close>
  takes the text between the first and the second \<open>T\<close> (\<open>undefined\<close> when there is no \<open>T\<close>)
  and joins its first two parts between colons. Both raise a TypeError on a value that is
  not a string.
\<close>

definition getDateFromTimestamp :: "jsval option \<Rightarrow> js_exn + string" where
  "getDateFromTimestamp timestamp =
     (case timestamp of
        Some (JStr s) \<Rightarrow> Inr (takeWhile (\<lambda>c. c \<noteq> CHR ''T'') s)
      | _ \<Rightarrow> Inl TypeError)"

definition getTimeFromTimestamp :: "jsval option \<Rightarrow> js_exn + string option" where
  "getTimeFromTimestamp timestamp =
     (case timestamp of
        Some (JStr s) \<Rightarrow>
          (if CHR ''T'' \<in> set s then
             (let part = takeWhile (\<lambda>c. c \<noteq> CHR ''T'') (tl (dropWhile (\<lambda>c. c \<noteq> CHR ''T'') s));
                  hours = takeWhile (\<lambda>c. c \<noteq> CHR '':'') part;
                  rest = dropWhile (\<lambda>c. c \<noteq> CHR '':'') part
              in Inr (Some (if rest = [] then hours
                            else hours @ '':'' @ takeWhile (\<lambda>c. c \<noteq> CHR '':'') (tl rest))))
           else Inr None)
      | _ \<Rightarrow> Inl TypeError)"

text \<open>
  What the callback of \<open>filteredSchedules.map\<close> computes for one schedule before it builds
  the card: the status (the badge reads Upcoming or Completed, and a card that is not
  upcoming carries the tag Past Event), the date and the two times. The labels, colours and
  locale formatting of the card are not modelled.
\<close>

record card =
  card_schedule :: row
  card_upcoming :: bool
  card_date :: string
  card_startTime :: "string option"
  card_endTime :: "string option"

definition render_card :: "(string \<Rightarrow> int option) \<Rightarrow> int \<Rightarrow> row \<Rightarrow> js_exn + card" where
  "render_card dp now schedule =
     (let upcoming = isUpcoming dp now (fld schedule ''start_time'') in
      (case getDateFromTimestamp (fld schedule ''start_time'') of
         Inl e \<Rightarrow> Inl e
       | Inr date \<Rightarrow>
           (case getTimeFromTimestamp (fld schedule ''start_time'') of
              Inl e \<Rightarrow> Inl e
            | Inr startTime \<Rightarrow>
                (case (if truthy (fld schedule ''end_time'')
                       then getTimeFromTimestamp (fld schedule ''end_time'') else Inr None) of
                   Inl e \<Rightarrow> Inl e
                 | Inr endTime \<Rightarrow>
                     Inr \<lparr>card_schedule = schedule, card_upcoming = upcoming, card_date = date,
                          card_startTime = startTime, card_endTime = endTime\<rparr>))))"

text \<open>
  The map over the rendered schedules. Every call of \<open>isUpcoming\<close> takes its own clock
  reading: \<open>clock k\<close> is the \<open>k\<close>-th reading, and \<open>i\<close> counts the readings taken so far. The
  first exception ends the rendering.
\<close>

fun render_cards ::
  "(string \<Rightarrow> int option) \<Rightarrow> (nat \<Rightarrow> int) \<Rightarrow> nat \<Rightarrow> row list \<Rightarrow> js_exn + card list" where
  "render_cards dp clock i [] = Inr []"
| "render_cards dp clock i (schedule # rest) =
     (case render_card dp (clock i) schedule of
        Inl e \<Rightarrow> Inl e
      | Inr c \<Rightarrow> (case render_cards dp clock (Suc i) rest of
                    Inl e \<Rightarrow> Inl e
                  | Inr cs \<Rightarrow> Inr (c # cs)))"

section \<open>The data source\<close>

text \<open>
  Modelled from the spec: the data source collaborator \<open>queryRows\<close> (the hosted backend,
  which is not part of the repository). A query names a table, filters that all have to
  hold (equality on a field, greater-or-equal on a timestamp field, a disjunction of
  filters), an ordering by a timestamp field and an optional limit; it fails when the
  table is missing. A row whose field is null or absent satisfies no filter on that field,
  and sorts after the rows that have it when ascending.
\<close>

definition db_time :: "(string \<Rightarrow> int option) \<Rightarrow> row \<Rightarrow> string \<Rightarrow> int option" where
  "db_time dp r k = (case fld r k of Some (JStr s) \<Rightarrow> dp s | _ \<Rightarrow> None)"

fun row_matches :: "(string \<Rightarrow> int option) \<Rightarrow> row \<Rightarrow> filter_expr \<Rightarrow> bool" where
  "row_matches dp r (FEq k v) = (fld r k = Some (JStr v))"
| "row_matches dp r (FGte k v) =
     (case db_time dp r k of None \<Rightarrow> False
      | Some a \<Rightarrow> (case dp v of None \<Rightarrow> False | Some b \<Rightarrow> b \<le> a))"
| "row_matches dp r (FOr fs) = list_ex (row_matches dp r) fs"

definition order_rows ::
  "(string \<Rightarrow> int option) \<Rightarrow> (string \<times> bool) option \<Rightarrow> row list \<Rightarrow> row list" where
  "order_rows dp ord rows =
     (case ord of None \<Rightarrow> rows
      | Some (k, ascending) \<Rightarrow>
          (let keyed = filter (\<lambda>r. db_time dp r k \<noteq> None) rows;
               nulls = filter (\<lambda>r. db_time dp r k = None) rows;
               sorted_rows = sort_key (\<lambda>r. the (db_time dp r k)) keyed
           in if ascending then sorted_rows @ nulls else nulls @ rev sorted_rows))"

definition limit_rows :: "nat option \<Rightarrow> row list \<Rightarrow> row list" where
  "limit_rows l rows = (case l of None \<Rightarrow> rows | Some n \<Rightarrow> take n rows)"

definition queryRows ::
  "(string \<Rightarrow> int option) \<Rightarrow> (string \<Rightarrow> row list option) \<Rightarrow> query \<Rightarrow> response" where
  "queryRows dp db q =
     (case db (q_table q) of
        None \<Rightarrow> \<lparr>data = None,
                 error = Some \<lparr>err_code = ''42P01'', err_message = ''relation does not exist''\<rparr>\<rparr>
      | Some rows \<Rightarrow>
          \<lparr>data = Some (limit_rows (q_limit q)
                   (order_rows dp (q_order q)
                     (filter (\<lambda>r. list_all (row_matches dp r) (q_filters q)) rows))),
           error = None\<rparr>)"

text \<open>The timestamp range filters of a query.\<close>

fun is_gte :: "filter_expr \<Rightarrow> bool" where
  "is_gte (FGte k v) = True"
| "is_gte _ = False"

definition time_filters :: "query \<Rightarrow> filter_expr list" where
  "time_filters q = filter is_gte (q_filters q)"

section \<open>Sample data\<close>

text \<open>A date parser for the sample rows: the time values of the ISO strings they use.\<close>

definition sample_parse :: "string \<Rightarrow> int option" where
  "sample_parse s = map_of
     [(''2025-06-01T10:00:00Z'', 1748772000000),
      (''2025-06-01T12:00:00Z'', 1748779200000),
      (''2025-06-01T14:00:00Z'', 1748786400000),
      (''2025-06-02T09:00:00Z'', 1748854800000),
      (''2025-06-03T09:00:00Z'', 1748941200000),
      (''2025-06-04T09:00:00Z'', 1749027600000),
      (''2025-06-05T09:00:00Z'', 1749114000000)] s"

text \<open>Lower-casing of the ASCII letters, for the sample searches.\<close>

definition ascii_lower :: "string \<Rightarrow> string" where
  "ascii_lower s =
     map (\<lambda>c. case map_of (zip ''ABCDEFGHIJKLMNOPQRSTUVWXYZ'' ''abcdefghijklmnopqrstuvwxyz'') c of
                 None \<Rightarrow> c | Some l \<Rightarrow> l) s"

definition tigers :: Team where
  "tigers = \<lparr>t_id = ''T1'', t_name = ''Tigers''\<rparr>"

definition practice_row :: "string \<Rightarrow> jsval \<Rightarrow> row" where
  "practice_row i t =
     [(''id'', JStr i), (''team_id'', JStr ''T1''), (''title'', JStr ''Drills''), (''start_time'', t)]"

definition meeting_row :: "string \<Rightarrow> jsval \<Rightarrow> row" where
  "meeting_row i t =
     [(''id'', JStr i), (''team_id'', JStr ''T1''), (''title'', JStr ''Film review''),
      (''meeting_type'', JStr ''team_meeting''), (''start_time'', t)]"

definition game_row :: "string \<Rightarrow> string \<Rightarrow> string \<Rightarrow> jsval \<Rightarrow> row" where
  "game_row i home away t =
     [(''id'', JStr i), (''team1_id'', JStr home), (''team2_id'', JStr away),
      (''title'', JStr ''Derby''), (''schedule_type'', JStr ''scrimmage''), (''start_time'', t)]"

definition league_row :: "string \<Rightarrow> jsval \<Rightarrow> row" where
  "league_row i t =
     [(''id'', JStr i), (''team_id'', JStr ''T1''), (''title'', JStr ''Cup''), (''start_time'', t)]"

definition rows_ok :: "row list \<Rightarrow> response" where
  "rows_ok rows = \<lparr>data = Some rows, error = None\<rparr>"

definition denied :: pg_error where
  "denied = \<lparr>err_code = ''42501'', err_message = ''permission denied''\<rparr>"

definition broken :: response where
  "broken = \<lparr>data = None, error = Some denied\<rparr>"

text \<open>A backend that answers by table: practices, meetings, and anything else as games.\<close>

definition sample_exec :: "response \<Rightarrow> response \<Rightarrow> response \<Rightarrow> query \<Rightarrow> response" where
  "sample_exec p m g q =
     (if q_table q = ''practice_schedules'' then p
      else if q_table q = ''meeting_schedules'' then m else g)"

text \<open>A clock that advances one millisecond per reading, and one that stands still.\<close>

definition ticking_clock :: "int \<Rightarrow> nat \<Rightarrow> int" where
  "ticking_clock start i = start + int i"

definition frozen_clock :: "int \<Rightarrow> nat \<Rightarrow> int" where
  "frozen_clock t i = t"

definition player_init :: player_page where
  "player_init = \<lparr>schedules = [], error_state = None, loading = True, console_out = []\<rparr>"

definition coach_init :: coach_page where
  "coach_init = \<lparr>c_schedules = [], c_error = None, c_loading = True, c_console = []\<rparr>"

definition sample_db :: "string \<Rightarrow> row list option" where
  "sample_db t = map_of
     [(''practice_schedules'',
         [practice_row ''a1'' (JStr ''2025-06-01T10:00:00Z''),
          practice_row ''a2'' (JStr ''2025-06-01T14:00:00Z'')]),
      (''meeting_schedules'', [meeting_row ''a1'' (JStr ''2025-06-01T12:00:00Z'')]),
      (''schedules'',
         [game_row ''g1'' ''T2'' ''T1'' (JStr ''2025-06-03T09:00:00Z''),
          game_row ''g2'' ''T2'' ''T3'' (JStr ''2025-06-02T09:00:00Z''),
          game_row ''g3'' ''T1'' ''T3'' (JStr ''2025-06-01T12:00:00Z'')]),
      (''game_schedules'',
         [league_row ''c1'' (JStr ''2025-06-04T09:00:00Z'')])] t"

section \<open>Properties of the sort\<close>

lemma mset_insert_sorted: "mset (insert_sorted c x ys) = add_mset x (mset ys)"
  by (induction ys) auto

lemma mset_array_sort: "mset (array_sort c xs) = mset xs"
  by (induction xs) (auto simp: mset_insert_sorted)

lemma set_array_sort: "set (array_sort c xs) = set xs"
  using mset_array_sort [of c xs] by (metis set_mset_mset)

lemma length_array_sort: "length (array_sort c xs) = length xs"
  using mset_array_sort [of c xs] by (metis size_mset)

lemma insert_sorted_insort_key:
  assumes "k x \<noteq> None" and "\<forall>y\<in>set ys. k y \<noteq> None"
  shows "insert_sorted (\<lambda>a b. num_sub (k a) (k b)) x ys = insort_key (\<lambda>z. the (k z)) x ys"
  using assms by (induction ys) (auto simp: sort_compare_def)

lemma array_sort_sort_key:
  assumes "\<forall>x\<in>set xs. k x \<noteq> None"
  shows "array_sort (\<lambda>a b. num_sub (k a) (k b)) xs = sort_key (\<lambda>z. the (k z)) xs"
  using assms by (induction xs) (auto simp: insert_sorted_insort_key)

lemma sorted_time_le:
  assumes "\<forall>x\<in>set xs. k x \<noteq> None" and "sorted (map (\<lambda>z. the (k z)) xs)"
  shows "sorted_wrt time_le (map k xs)"
  using assms by (induction xs) (fastforce simp: sorted_wrt_map)+

lemma array_sort_nondecreasing:
  assumes "\<forall>x\<in>set xs. k x \<noteq> None"
  shows "sorted_wrt time_le (map k (array_sort (\<lambda>a b. num_sub (k a) (k b)) xs))"
proof -
  have "sorted (map (\<lambda>z. the (k z)) (sort_key (\<lambda>z. the (k z)) xs))"
    by (rule sorted_sort_key)
  moreover have "\<forall>x\<in>set (sort_key (\<lambda>z. the (k z)) xs). k x \<noteq> None"
    using assms by simp
  ultimately show ?thesis
    using assms by (simp add: array_sort_sort_key sorted_time_le)
qed

lemma array_sort_stable:
  assumes "\<forall>x\<in>set xs. k x \<noteq> None"
  shows "filter (\<lambda>e. k e = Some t) (array_sort (\<lambda>a b. num_sub (k a) (k b)) xs)
         = filter (\<lambda>e. k e = Some t) xs"
proof -
  have eq: "\<And>ys. set ys \<subseteq> set xs \<Longrightarrow>
      filter (\<lambda>e. k e = Some t) ys = filter (\<lambda>e. the (k e) = t) ys"
    using assms by (intro filter_cong) auto
  have "filter (\<lambda>e. k e = Some t) (sort_key (\<lambda>z. the (k z)) xs)
        = filter (\<lambda>e. the (k e) = t) (sort_key (\<lambda>z. the (k z)) xs)"
    by (rule eq) simp
  also have "\<dots> = filter (\<lambda>e. the (k e) = t) xs"
    by (rule sort_key_stable)
  also have "\<dots> = filter (\<lambda>e. k e = Some t) xs"
    by (rule eq [symmetric]) simp
  finally show ?thesis
    using assms by (simp add: array_sort_sort_key)
qed

lemma by_start_time_key: "by_start_time dp = (\<lambda>a b. num_sub (start_ms dp a) (start_ms dp b))"
  by (intro ext) (simp add: by_start_time_def)

lemma by_cs_start_time_key:
  "by_cs_start_time dp = (\<lambda>a b. num_sub (cs_start_ms dp a) (cs_start_ms dp b))"
  by (intro ext) (simp add: by_cs_start_time_def)

section \<open>What the fetches store\<close>

lemma loadData_schedules:
  "schedules (loadData dp exec (Some team) st) = array_sort (by_start_time dp) (allSchedules exec team)"
  by (simp add: loadData_def Let_def)

lemma loadData_error_state: "error_state (loadData dp exec currentTeam st) = None"
  by (simp add: loadData_def Let_def split: option.splits)

lemma loadData_loading: "loading (loadData dp exec currentTeam st) = False"
  by (simp add: loadData_def Let_def split: option.splits)

lemma loadData_console:
  "console_out (loadData dp exec (Some team) st) =
     log_if LogError ''Game schedules error:'' (error (exec (game_query (t_id team))))
       (log_if LogError ''Meeting schedules error:'' (error (exec (meeting_query (t_id team))))
         (log_if LogError ''Practice schedules error:'' (error (exec (practice_query (t_id team))))
           (console_out st)))"
  by (simp add: loadData_def Let_def)

lemma fetchAllSchedules_ok:
  assumes "error (exec (practice_query teamId)) = None"
  shows "c_schedules (fetchAllSchedules dp exec teamId st)
           = array_sort (by_cs_start_time dp) (combinedSchedules exec teamId)"
    and "c_error (fetchAllSchedules dp exec teamId st) = c_error st"
    and "c_loading (fetchAllSchedules dp exec teamId st) = False"
  using assms by (simp_all add: fetchAllSchedules_def Let_def)

lemma sample_queries [simp]:
  "q_table (practice_query tid) = ''practice_schedules''"
  "q_table (meeting_query tid) = ''meeting_schedules''"
  "q_table (game_query tid) = ''schedules''"
  "q_table (coach_game_query tid) = ''game_schedules''"
  by (simp_all add: practice_query_def meeting_query_def game_query_def coach_game_query_def
      order_q_def eq_q_def or_q_def from_q_def)

lemma sample_exec_simps [simp]:
  "sample_exec p m g (practice_query tid) = p"
  "sample_exec p m g (meeting_query tid) = m"
  "sample_exec p m g (game_query tid) = g"
  "sample_exec p m g (coach_game_query tid) = g"
  by (simp_all add: sample_exec_def)

lemma loadData_eq:
  "loadData dp exec (Some team) st =
     st\<lparr>schedules := array_sort (by_start_time dp) (allSchedules exec team),
        error_state := None, loading := False,
        console_out :=
          log_if LogError ''Game schedules error:'' (error (exec (game_query (t_id team))))
            (log_if LogError ''Meeting schedules error:'' (error (exec (meeting_query (t_id team))))
              (log_if LogError ''Practice schedules error:'' (error (exec (practice_query (t_id team))))
                (console_out st)))\<rparr>"
  by (simp add: loadData_def Let_def)

lemma fetchAllSchedules_eq:
  assumes "error (exec (practice_query teamId)) = None"
  shows "fetchAllSchedules dp exec teamId st =
     st\<lparr>c_schedules := array_sort (by_cs_start_time dp) (combinedSchedules exec teamId),
        c_loading := False,
        c_console :=
          warn_unless_missing ''Game schedules error:'' (error (exec (coach_game_query teamId)))
            (warn_unless_missing ''Meeting schedules error:'' (error (exec (meeting_query teamId)))
              (c_console st))\<rparr>"
  using assms by (simp add: fetchAllSchedules_def Let_def)

lemma fetchAllSchedules_abort:
  assumes "error (exec (practice_query teamId)) = Some e"
  shows "fetchAllSchedules dp exec teamId st =
     st\<lparr>c_console := c_console st @ [(LogError, ''Error fetching schedules:'', e)],
        c_error := Some ''Failed to load schedules.'', c_loading := False\<rparr>"
  using assms by (simp add: fetchAllSchedules_def)

lemma fld_update: "fld (AList.update k v r) k' = (if k' = k then Some v else fld r k')"
  by (simp add: fld_def update_conv')

lemma start_ms_events [simp]:
  "start_ms dp (practice_event r) = start_ms dp r"
  "start_ms dp (meeting_event r) = start_ms dp r"
  "start_ms dp (game_event team r) = start_ms dp r"
  by (simp_all add: start_ms_def practice_event_def meeting_event_def game_event_def fld_update)

lemma start_ms_dash_event [simp]: "start_ms dp (dash_event ty r) = start_ms dp r"
  by (simp add: start_ms_def dash_event_def fld_update)

lemma cs_start_ms_combined [simp]:
  "cs_start_ms dp (combined_practice r) = start_ms dp r"
  "cs_start_ms dp (combined_meeting r) = start_ms dp r"
  "cs_start_ms dp (combined_game r) = start_ms dp r"
  by (simp_all add: cs_start_ms_def start_ms_def combined_practice_def combined_meeting_def
      combined_game_def)

lemma start_ms_sample_rows [simp]:
  "start_ms dp (practice_row i t) = date_getTime dp (Some t)"
  "start_ms dp (meeting_row i t) = date_getTime dp (Some t)"
  "start_ms dp (game_row i h a t) = date_getTime dp (Some t)"
  "start_ms dp (league_row i t) = date_getTime dp (Some t)"
  by (simp_all add: start_ms_def fld_def practice_row_def meeting_row_def game_row_def
      league_row_def)

lemma sample_parse_simps [simp]:
  "sample_parse ''2025-06-01T10:00:00Z'' = Some 1748772000000"
  "sample_parse ''2025-06-01T12:00:00Z'' = Some 1748779200000"
  "sample_parse ''2025-06-01T14:00:00Z'' = Some 1748786400000"
  "sample_parse ''2025-06-02T09:00:00Z'' = Some 1748854800000"
  "sample_parse ''2025-06-03T09:00:00Z'' = Some 1748941200000"
  "sample_parse ''2025-06-04T09:00:00Z'' = Some 1749027600000"
  "sample_parse ''2025-06-05T09:00:00Z'' = Some 1749114000000"
  by (simp_all add: sample_parse_def)

lemma sort_compare_by_cs_start_time:
  "sort_compare (by_cs_start_time dp) a b =
     (case cs_start_ms dp a of None \<Rightarrow> 0
      | Some x \<Rightarrow> (case cs_start_ms dp b of None \<Rightarrow> 0 | Some y \<Rightarrow> x - y))"
  by (simp add: sort_compare_def by_cs_start_time_def split: option.splits)

lemma sort_compare_by_start_time:
  "sort_compare (by_start_time dp) a b =
     (case start_ms dp a of None \<Rightarrow> 0
      | Some x \<Rightarrow> (case start_ms dp b of None \<Rightarrow> 0 | Some y \<Rightarrow> x - y))"
  by (simp add: sort_compare_def by_start_time_def split: option.splits)

section \<open>Classification and filters\<close>

lemma isUpcoming_start:
  "isUpcoming dp now (fld e ''start_time'') = (\<exists>t. start_ms dp e = Some t \<and> now < t)"
  by (simp add: isUpcoming_def start_ms_def split: option.splits)

lemma not_isUpcoming_start:
  assumes "start_ms dp e \<noteq> None"
  shows "(\<not> isUpcoming dp now (fld e ''start_time'')) = (\<exists>t. start_ms dp e = Some t \<and> t \<le> now)"
  using assms by (auto simp: isUpcoming_def start_ms_def split: option.splits)

lemma render_card_Inr:
  assumes "render_card dp now s = Inr c"
  shows "card_schedule c = s"
    and "card_upcoming c = isUpcoming dp now (fld s ''start_time'')"
  using assms by (auto simp: render_card_def Let_def split: sum.splits if_splits)

lemma render_card_returns:
  assumes "is_string (fld s ''start_time'')"
    and "truthy (fld s ''end_time'') \<longrightarrow> is_string (fld s ''end_time'')"
  shows "\<exists>c. render_card dp now s = Inr c"
proof -
  obtain a where a: "fld s ''start_time'' = Some (JStr a)"
    using assms(1) by (cases "fld s ''start_time''" rule: is_string.cases) auto
  show ?thesis
  proof (cases "truthy (fld s ''end_time'')")
    case True
    then obtain b where "fld s ''end_time'' = Some (JStr b)"
      using assms(2) by (cases "fld s ''end_time''" rule: is_string.cases) auto
    with a True show ?thesis
      by (simp add: render_card_def getDateFromTimestamp_def getTimeFromTimestamp_def Let_def)
  next
    case False
    with a show ?thesis
      by (simp add: render_card_def getDateFromTimestamp_def getTimeFromTimestamp_def Let_def)
  qed
qed

lemma render_cards_schedules:
  "render_cards dp clock i E = Inr cs \<Longrightarrow> map card_schedule cs = E"
  by (induction E arbitrary: i cs) (auto split: sum.splits dest: render_card_Inr(1))

lemma render_cards_nth:
  "render_cards dp clock i E = Inr cs \<Longrightarrow> k < length E \<Longrightarrow>
     card_upcoming (cs ! k) = isUpcoming dp (clock (i + k)) (fld (E ! k) ''start_time'')"
proof (induction E arbitrary: i cs k)
  case Nil
  then show ?case by simp
next
  case (Cons s ss)
  from Cons.prems(1) obtain c cs' where c: "render_card dp (clock i) s = Inr c"
    and r: "render_cards dp clock (Suc i) ss = Inr cs'" and cs: "cs = c # cs'"
    by (auto split: sum.splits)
  show ?case
  proof (cases k)
    case 0
    with c cs show ?thesis by (simp add: render_card_Inr(2))
  next
    case (Suc j)
    with Cons.prems(2) have "j < length ss" by simp
    from Cons.IH [OF r this] Suc cs show ?thesis by simp
  qed
qed

lemma render_cards_frozen:
  "render_cards dp clock i E = Inr cs \<Longrightarrow> \<forall>k<length E. clock (i + k) = now \<Longrightarrow>
     map card_schedule (filter card_upcoming cs)
       = filter (\<lambda>e. isUpcoming dp now (fld e ''start_time'')) E
     \<and> map card_schedule (filter (\<lambda>c. \<not> card_upcoming c) cs)
       = filter (\<lambda>e. \<not> isUpcoming dp now (fld e ''start_time'')) E"
proof (induction E arbitrary: i cs)
  case Nil
  then show ?case by simp
next
  case (Cons s ss)
  from Cons.prems(1) obtain c cs' where c: "render_card dp (clock i) s = Inr c"
    and r: "render_cards dp clock (Suc i) ss = Inr cs'" and cs: "cs = c # cs'"
    by (auto split: sum.splits)
  have now: "clock i = now"
    using Cons.prems(2) by force
  have "\<forall>k<length ss. clock (Suc i + k) = now"
    using Cons.prems(2) by force
  from Cons.IH [OF r this] render_card_Inr [OF c] now cs
  show ?case by simp
qed

lemma render_cards_returns:
  "\<forall>s\<in>set E. is_string (fld s ''start_time'')
       \<and> (truthy (fld s ''end_time'') \<longrightarrow> is_string (fld s ''end_time'')) \<Longrightarrow>
   \<exists>cs. render_cards dp clock i E = Inr cs"
proof (induction E arbitrary: i)
  case Nil
  then show ?case by simp
next
  case (Cons s ss)
  then obtain c where "render_card dp (clock i) s = Inr c"
    using render_card_returns [of s dp "clock i"] by auto
  moreover obtain cs where "render_cards dp clock (Suc i) ss = Inr cs"
    using Cons by auto
  ultimately show ?case by simp
qed

lemma render_sample_simps:
  "fld (practice_event (practice_row i t)) ''start_time'' = Some t"
  "fld (meeting_event (meeting_row i t)) ''start_time'' = Some t"
  "fld (game_event team (game_row i h a t)) ''start_time'' = Some t"
  "fld (practice_event (practice_row i t)) ''end_time'' = None"
  "fld (meeting_event (meeting_row i t)) ''end_time'' = None"
  "fld (game_event team (game_row i h a t)) ''end_time'' = None"
  by (simp_all add: practice_event_def meeting_event_def game_event_def fld_update)
     (simp_all add: fld_def practice_row_def meeting_row_def game_row_def)

lemma filter_exn_Inr:
  "filter_exn p xs = Inr ys \<Longrightarrow> ys = filter (\<lambda>x. p x = Inr True) xs"
  by (induction xs arbitrary: ys) (auto split: sum.splits if_splits)

lemma filter_exn_all_true:
  "\<forall>x\<in>set xs. p x = Inr True \<Longrightarrow> filter_exn p xs = Inr xs"
  by (induction xs) auto

lemma filter_exn_total:
  "filter_exn (\<lambda>x. Inr (P x)) xs = Inr (filter P xs)"
  by (induction xs) auto

lemma schedule_matches_no_search:
  "schedule_matches lc flt [] s = Inr (flt = ''all'' \<or> cs_type s = flt)"
  by (simp add: schedule_matches_def)

lemma schedule_matches_type:
  "schedule_matches lc flt q s = Inr True \<Longrightarrow> flt = ''all'' \<or> cs_type s = flt"
  by (auto simp: schedule_matches_def split: if_splits)

section \<open>Queries of the pages\<close>

lemma query_fields [simp]:
  "q_filters (practice_query tid) = [FEq ''team_id'' tid]"
  "q_filters (meeting_query tid) = [FEq ''team_id'' tid]"
  "q_filters (game_query tid) = [FOr [FEq ''team1_id'' tid, FEq ''team2_id'' tid]]"
  "q_filters (coach_game_query tid) = [FEq ''team_id'' tid]"
  "q_order (practice_query tid) = Some (''start_time'', True)"
  "q_order (meeting_query tid) = Some (''start_time'', True)"
  "q_order (game_query tid) = Some (''start_time'', True)"
  "q_order (coach_game_query tid) = Some (''start_time'', True)"
  "q_limit (practice_query tid) = None"
  "q_limit (meeting_query tid) = None"
  "q_limit (game_query tid) = None"
  "q_limit (coach_game_query tid) = None"
  by (simp_all add: practice_query_def meeting_query_def game_query_def coach_game_query_def
      order_q_def eq_q_def or_q_def from_q_def)

lemma dash_query_fields [simp]:
  "q_table (dash_practice_query cd tid) = ''practice_schedules''"
  "q_table (dash_meeting_query cd tid) = ''meeting_schedules''"
  "q_table (dash_game_query cd tid) = ''schedules''"
  "q_filters (dash_practice_query cd tid) = [FEq ''team_id'' tid, FGte ''start_time'' cd]"
  "q_filters (dash_meeting_query cd tid) = [FEq ''team_id'' tid, FGte ''start_time'' cd]"
  "q_filters (dash_game_query cd tid)
     = [FOr [FEq ''team1_id'' tid, FEq ''team2_id'' tid], FGte ''start_time'' cd]"
  "q_order (dash_practice_query cd tid) = Some (''start_time'', True)"
  "q_order (dash_meeting_query cd tid) = Some (''start_time'', True)"
  "q_order (dash_game_query cd tid) = Some (''start_time'', True)"
  "q_limit (dash_practice_query cd tid) = Some 10"
  "q_limit (dash_meeting_query cd tid) = Some 10"
  "q_limit (dash_game_query cd tid) = Some 10"
  by (simp_all add: dash_practice_query_def dash_meeting_query_def dash_game_query_def
      limit_q_def order_q_def gte_q_def eq_q_def or_q_def from_q_def)

lemma queryRows_data:
  assumes "db (q_table q) = Some rows"
  shows "data (queryRows dp db q) =
     Some (limit_rows (q_limit q) (order_rows dp (q_order q)
             (filter (\<lambda>r. list_all (row_matches dp r) (q_filters q)) rows)))"
  using assms by (simp add: queryRows_def)

lemma queryRows_limited:
  assumes "q_limit q = Some n" and "data (queryRows dp db q) = Some rows"
  shows "length rows \<le> n"
  using assms by (auto simp: queryRows_def limit_rows_def split: option.splits)

lemma sorted_wrt_take_drop:
  assumes "sorted_wrt P xs"
  shows "\<forall>a\<in>set (take n xs). \<forall>b\<in>set (drop n xs). P a b"
proof -
  have "sorted_wrt P (take n xs @ drop n xs)"
    using assms by simp
  then show ?thesis
    unfolding sorted_wrt_append by blast
qed

lemma sorted_wrt_take: "sorted_wrt P xs \<Longrightarrow> sorted_wrt P (take n xs)"
proof -
  assume "sorted_wrt P xs"
  then have "sorted_wrt P (take n xs @ drop n xs)" by simp
  then show ?thesis unfolding sorted_wrt_append by blast
qed

lemma sample_exec_dash [simp]:
  "sample_exec p m g (dash_practice_query cd tid) = p"
  "sample_exec p m g (dash_meeting_query cd tid) = m"
  "sample_exec p m g (dash_game_query cd tid) = g"
  by (simp_all add: sample_exec_def)

section \<open>Claims\<close>

text \<open>
  C7. When all three queries of the player schedule page fail (each resolves with
  \<open>data = null\<close>), \<open>loadData\<close> stores the empty list of schedules; the error
  message of the page stays unset and loading ends, so nothing but the absence of events
  reaches the caller.
\<close>

theorem all_sources_fail_empty:
  assumes "data (exec (practice_query (t_id team))) = None"
    and "data (exec (meeting_query (t_id team))) = None"
    and "data (exec (game_query (t_id team))) = None"
  shows "schedules (loadData dp exec (Some team) st) = []
         \<and> error_state (loadData dp exec (Some team) st) = None
         \<and> loading (loadData dp exec (Some team) st) = False"
  using assms
  by (simp add: loadData_schedules loadData_error_state loadData_loading allSchedules_def push_all_def)

theorem all_sources_fail_empty_witness:
  "data (sample_exec broken broken broken (practice_query (t_id tigers))) = None
   \<and> data (sample_exec broken broken broken (meeting_query (t_id tigers))) = None
   \<and> data (sample_exec broken broken broken (game_query (t_id tigers))) = None
   \<and> schedules (loadData sample_parse (sample_exec broken broken broken) (Some tigers) player_init) = []
   \<and> error_state (loadData sample_parse (sample_exec broken broken broken) (Some tigers) player_init) = None
   \<and> loading (loadData sample_parse (sample_exec broken broken broken) (Some tigers) player_init) = False"
proof -
  have h: "data (sample_exec broken broken broken (practice_query (t_id tigers))) = None"
    "data (sample_exec broken broken broken (meeting_query (t_id tigers))) = None"
    "data (sample_exec broken broken broken (game_query (t_id tigers))) = None"
    by (simp_all add: broken_def)
  from all_sources_fail_empty [OF h, of sample_parse player_init] h show ?thesis by simp
qed

text \<open>
  C1, as the code has it. On the player schedule page a single failed query is absorbed
  whichever source it is: \<open>loadData\<close> logs the error, leaves the error message of the page
  unset and stores the sorted events of the two other sources. On the coach schedule page
  the same holds for a failed meeting or game query (the warning is skipped for the code
  \<open>42P01\<close>); a failed practice query aborts \<open>fetchAllSchedules\<close>, which logs it, sets the
  message "Failed to load schedules." and leaves the schedules as they were.
\<close>

theorem one_source_failure_absorbed:
  "(fails_with (exec (practice_query (t_id team))) e
      \<and> returns_rows (exec (meeting_query (t_id team))) M
      \<and> returns_rows (exec (game_query (t_id team))) G \<longrightarrow>
    loadData dp exec (Some team) st =
      st\<lparr>schedules := array_sort (by_start_time dp) (map meeting_event M @ map (game_event team) G),
         error_state := None, loading := False,
         console_out := console_out st @ [(LogError, ''Practice schedules error:'', e)]\<rparr>)
   \<and> (returns_rows (exec (practice_query (t_id team))) P
      \<and> fails_with (exec (meeting_query (t_id team))) e
      \<and> returns_rows (exec (game_query (t_id team))) G \<longrightarrow>
    loadData dp exec (Some team) st =
      st\<lparr>schedules := array_sort (by_start_time dp) (map practice_event P @ map (game_event team) G),
         error_state := None, loading := False,
         console_out := console_out st @ [(LogError, ''Meeting schedules error:'', e)]\<rparr>)
   \<and> (returns_rows (exec (practice_query (t_id team))) P
      \<and> returns_rows (exec (meeting_query (t_id team))) M
      \<and> fails_with (exec (game_query (t_id team))) e \<longrightarrow>
    loadData dp exec (Some team) st =
      st\<lparr>schedules := array_sort (by_start_time dp) (map practice_event P @ map meeting_event M),
         error_state := None, loading := False,
         console_out := console_out st @ [(LogError, ''Game schedules error:'', e)]\<rparr>)
   \<and> (returns_rows (exec (practice_query teamId)) P
      \<and> fails_with (exec (meeting_query teamId)) e
      \<and> returns_rows (exec (coach_game_query teamId)) G \<longrightarrow>
    fetchAllSchedules dp exec teamId cst =
      cst\<lparr>c_schedules := array_sort (by_cs_start_time dp) (map combined_practice P @ map combined_game G),
          c_loading := False,
          c_console := warn_unless_missing ''Meeting schedules error:'' (Some e) (c_console cst)\<rparr>)
   \<and> (returns_rows (exec (practice_query teamId)) P
      \<and> returns_rows (exec (meeting_query teamId)) M
      \<and> fails_with (exec (coach_game_query teamId)) e \<longrightarrow>
    fetchAllSchedules dp exec teamId cst =
      cst\<lparr>c_schedules := array_sort (by_cs_start_time dp) (map combined_practice P @ map combined_meeting M),
          c_loading := False,
          c_console := warn_unless_missing ''Game schedules error:'' (Some e) (c_console cst)\<rparr>)
   \<and> (fails_with (exec (practice_query teamId)) e \<longrightarrow>
    fetchAllSchedules dp exec teamId cst =
      cst\<lparr>c_console := c_console cst @ [(LogError, ''Error fetching schedules:'', e)],
          c_error := Some ''Failed to load schedules.'', c_loading := False\<rparr>)"
proof (intro conjI impI)
  assume "fails_with (exec (practice_query (t_id team))) e
      \<and> returns_rows (exec (meeting_query (t_id team))) M
      \<and> returns_rows (exec (game_query (t_id team))) G"
  then show "loadData dp exec (Some team) st =
      st\<lparr>schedules := array_sort (by_start_time dp) (map meeting_event M @ map (game_event team) G),
         error_state := None, loading := False,
         console_out := console_out st @ [(LogError, ''Practice schedules error:'', e)]\<rparr>"
    by (simp add: loadData_eq allSchedules_def push_all_def log_if_def fails_with_def returns_rows_def)
next
  assume "returns_rows (exec (practice_query (t_id team))) P
      \<and> fails_with (exec (meeting_query (t_id team))) e
      \<and> returns_rows (exec (game_query (t_id team))) G"
  then show "loadData dp exec (Some team) st =
      st\<lparr>schedules := array_sort (by_start_time dp) (map practice_event P @ map (game_event team) G),
         error_state := None, loading := False,
         console_out := console_out st @ [(LogError, ''Meeting schedules error:'', e)]\<rparr>"
    by (simp add: loadData_eq allSchedules_def push_all_def log_if_def fails_with_def returns_rows_def)
next
  assume "returns_rows (exec (practice_query (t_id team))) P
      \<and> returns_rows (exec (meeting_query (t_id team))) M
      \<and> fails_with (exec (game_query (t_id team))) e"
  then show "loadData dp exec (Some team) st =
      st\<lparr>schedules := array_sort (by_start_time dp) (map practice_event P @ map meeting_event M),
         error_state := None, loading := False,
         console_out := console_out st @ [(LogError, ''Game schedules error:'', e)]\<rparr>"
    by (simp add: loadData_eq allSchedules_def push_all_def log_if_def fails_with_def returns_rows_def)
next
  assume a: "returns_rows (exec (practice_query teamId)) P
      \<and> fails_with (exec (meeting_query teamId)) e
      \<and> returns_rows (exec (coach_game_query teamId)) G"
  then have "error (exec (practice_query teamId)) = None"
    by (simp add: returns_rows_def)
  from fetchAllSchedules_eq [of exec teamId dp cst, OF this] a
  show "fetchAllSchedules dp exec teamId cst =
      cst\<lparr>c_schedules := array_sort (by_cs_start_time dp) (map combined_practice P @ map combined_game G),
          c_loading := False,
          c_console := warn_unless_missing ''Meeting schedules error:'' (Some e) (c_console cst)\<rparr>"
    by (simp add: combinedSchedules_def push_all_def warn_unless_missing_def fails_with_def returns_rows_def)
next
  assume a: "returns_rows (exec (practice_query teamId)) P
      \<and> returns_rows (exec (meeting_query teamId)) M
      \<and> fails_with (exec (coach_game_query teamId)) e"
  then have "error (exec (practice_query teamId)) = None"
    by (simp add: returns_rows_def)
  from fetchAllSchedules_eq [of exec teamId dp cst, OF this] a
  show "fetchAllSchedules dp exec teamId cst =
      cst\<lparr>c_schedules := array_sort (by_cs_start_time dp) (map combined_practice P @ map combined_meeting M),
          c_loading := False,
          c_console := warn_unless_missing ''Game schedules error:'' (Some e) (c_console cst)\<rparr>"
    by (simp add: combinedSchedules_def push_all_def warn_unless_missing_def fails_with_def returns_rows_def)
next
  assume "fails_with (exec (practice_query teamId)) e"
  then have "error (exec (practice_query teamId)) = Some e"
    by (simp add: fails_with_def)
  from fetchAllSchedules_abort [of exec teamId e dp cst, OF this]
  show "fetchAllSchedules dp exec teamId cst =
      cst\<lparr>c_console := c_console cst @ [(LogError, ''Error fetching schedules:'', e)],
          c_error := Some ''Failed to load schedules.'', c_loading := False\<rparr>"
    .
qed

theorem one_source_failure_absorbed_witness:
  "returns_rows (sample_exec (rows_ok [practice_row ''a1'' (JStr ''2025-06-01T10:00:00Z'')]) broken
                   (rows_ok [game_row ''g1'' ''T1'' ''T2'' (JStr ''2025-06-01T12:00:00Z'')])
                   (practice_query (t_id tigers)))
                [practice_row ''a1'' (JStr ''2025-06-01T10:00:00Z'')]
   \<and> fails_with (sample_exec (rows_ok [practice_row ''a1'' (JStr ''2025-06-01T10:00:00Z'')]) broken
                   (rows_ok [game_row ''g1'' ''T1'' ''T2'' (JStr ''2025-06-01T12:00:00Z'')])
                   (meeting_query (t_id tigers))) denied
   \<and> returns_rows (sample_exec (rows_ok [practice_row ''a1'' (JStr ''2025-06-01T10:00:00Z'')]) broken
                   (rows_ok [game_row ''g1'' ''T1'' ''T2'' (JStr ''2025-06-01T12:00:00Z'')])
                   (game_query (t_id tigers)))
                [game_row ''g1'' ''T1'' ''T2'' (JStr ''2025-06-01T12:00:00Z'')]
   \<and> loadData sample_parse
        (sample_exec (rows_ok [practice_row ''a1'' (JStr ''2025-06-01T10:00:00Z'')]) broken
           (rows_ok [game_row ''g1'' ''T1'' ''T2'' (JStr ''2025-06-01T12:00:00Z'')]))
        (Some tigers) player_init
      = \<lparr>schedules = [practice_event (practice_row ''a1'' (JStr ''2025-06-01T10:00:00Z'')),
                      game_event tigers (game_row ''g1'' ''T1'' ''T2'' (JStr ''2025-06-01T12:00:00Z''))],
         error_state = None, loading = False,
         console_out = [(LogError, ''Meeting schedules error:'', denied)]\<rparr>
   \<and> returns_rows (sample_exec (rows_ok [practice_row ''a1'' (JStr ''2025-06-01T14:00:00Z'')])
                   (rows_ok [meeting_row ''a1'' (JStr ''2025-06-01T12:00:00Z'')]) broken
                   (practice_query ''T1''))
                [practice_row ''a1'' (JStr ''2025-06-01T14:00:00Z'')]
   \<and> returns_rows (sample_exec (rows_ok [practice_row ''a1'' (JStr ''2025-06-01T14:00:00Z'')])
                   (rows_ok [meeting_row ''a1'' (JStr ''2025-06-01T12:00:00Z'')]) broken
                   (meeting_query ''T1''))
                [meeting_row ''a1'' (JStr ''2025-06-01T12:00:00Z'')]
   \<and> fails_with (sample_exec (rows_ok [practice_row ''a1'' (JStr ''2025-06-01T14:00:00Z'')])
                   (rows_ok [meeting_row ''a1'' (JStr ''2025-06-01T12:00:00Z'')]) broken
                   (coach_game_query ''T1'')) denied
   \<and> fetchAllSchedules sample_parse
        (sample_exec (rows_ok [practice_row ''a1'' (JStr ''2025-06-01T14:00:00Z'')])
           (rows_ok [meeting_row ''a1'' (JStr ''2025-06-01T12:00:00Z'')]) broken)
        ''T1'' coach_init
      = \<lparr>c_schedules = [combined_meeting (meeting_row ''a1'' (JStr ''2025-06-01T12:00:00Z'')),
                        combined_practice (practice_row ''a1'' (JStr ''2025-06-01T14:00:00Z''))],
         c_error = None, c_loading = False,
         c_console = [(LogWarn, ''Game schedules error:'', denied)]\<rparr>"
proof -
  let ?X = "sample_exec (rows_ok [practice_row ''a1'' (JStr ''2025-06-01T10:00:00Z'')]) broken
              (rows_ok [game_row ''g1'' ''T1'' ''T2'' (JStr ''2025-06-01T12:00:00Z'')])"
  let ?Y = "sample_exec (rows_ok [practice_row ''a1'' (JStr ''2025-06-01T14:00:00Z'')])
              (rows_ok [meeting_row ''a1'' (JStr ''2025-06-01T12:00:00Z'')]) broken"
  have h: "returns_rows (?X (practice_query (t_id tigers)))
             [practice_row ''a1'' (JStr ''2025-06-01T10:00:00Z'')]
           \<and> fails_with (?X (meeting_query (t_id tigers))) denied
           \<and> returns_rows (?X (game_query (t_id tigers)))
             [game_row ''g1'' ''T1'' ''T2'' (JStr ''2025-06-01T12:00:00Z'')]"
    by (simp add: returns_rows_def fails_with_def rows_ok_def broken_def)
  have k: "returns_rows (?Y (practice_query ''T1''))
             [practice_row ''a1'' (JStr ''2025-06-01T14:00:00Z'')]
           \<and> returns_rows (?Y (meeting_query ''T1''))
             [meeting_row ''a1'' (JStr ''2025-06-01T12:00:00Z'')]
           \<and> fails_with (?Y (coach_game_query ''T1'')) denied"
    by (simp add: returns_rows_def fails_with_def rows_ok_def broken_def)
  from one_source_failure_absorbed
    [where exec = ?X and team = tigers and e = denied and dp = sample_parse and st = player_init
       and P = "[practice_row ''a1'' (JStr ''2025-06-01T10:00:00Z'')]"
       and G = "[game_row ''g1'' ''T1'' ''T2'' (JStr ''2025-06-01T12:00:00Z'')]",
     THEN conjunct2, THEN conjunct1, THEN mp, OF h]
  have a: "loadData sample_parse ?X (Some tigers) player_init
      = \<lparr>schedules = [practice_event (practice_row ''a1'' (JStr ''2025-06-01T10:00:00Z'')),
                      game_event tigers (game_row ''g1'' ''T1'' ''T2'' (JStr ''2025-06-01T12:00:00Z''))],
         error_state = None, loading = False,
         console_out = [(LogError, ''Meeting schedules error:'', denied)]\<rparr>"
    by (simp add: player_init_def sort_compare_by_start_time)
  from one_source_failure_absorbed
    [where exec = ?Y and teamId = "''T1''" and e = denied and dp = sample_parse and cst = coach_init
       and P = "[practice_row ''a1'' (JStr ''2025-06-01T14:00:00Z'')]"
       and M = "[meeting_row ''a1'' (JStr ''2025-06-01T12:00:00Z'')]",
     THEN conjunct2, THEN conjunct2, THEN conjunct2, THEN conjunct2, THEN conjunct1, THEN mp, OF k]
  have b: "fetchAllSchedules sample_parse ?Y ''T1'' coach_init
      = \<lparr>c_schedules = [combined_meeting (meeting_row ''a1'' (JStr ''2025-06-01T12:00:00Z'')),
                        combined_practice (practice_row ''a1'' (JStr ''2025-06-01T14:00:00Z''))],
         c_error = None, c_loading = False,
         c_console = [(LogWarn, ''Game schedules error:'', denied)]\<rparr>"
    by (simp add: coach_init_def sort_compare_by_cs_start_time warn_unless_missing_def denied_def)
  from h k a b show ?thesis by blast
qed

text \<open>
  C1 as stated fails on the coach schedule page: the practice query fails, the meeting and
  game queries return one row each, and the fetch ends with the error message set and no
  schedule stored.
\<close>

theorem coach_practice_failure_counterexample:
  "fails_with (sample_exec broken (rows_ok [meeting_row ''a1'' (JStr ''2025-06-01T12:00:00Z'')])
                 (rows_ok [league_row ''c1'' (JStr ''2025-06-04T09:00:00Z'')])
                 (practice_query ''T1'')) denied
   \<and> returns_rows (sample_exec broken (rows_ok [meeting_row ''a1'' (JStr ''2025-06-01T12:00:00Z'')])
                 (rows_ok [league_row ''c1'' (JStr ''2025-06-04T09:00:00Z'')])
                 (meeting_query ''T1''))
                [meeting_row ''a1'' (JStr ''2025-06-01T12:00:00Z'')]
   \<and> returns_rows (sample_exec broken (rows_ok [meeting_row ''a1'' (JStr ''2025-06-01T12:00:00Z'')])
                 (rows_ok [league_row ''c1'' (JStr ''2025-06-04T09:00:00Z'')])
                 (coach_game_query ''T1''))
                [league_row ''c1'' (JStr ''2025-06-04T09:00:00Z'')]
   \<and> fetchAllSchedules sample_parse
        (sample_exec broken (rows_ok [meeting_row ''a1'' (JStr ''2025-06-01T12:00:00Z'')])
           (rows_ok [league_row ''c1'' (JStr ''2025-06-04T09:00:00Z'')]))
        ''T1'' coach_init
      = \<lparr>c_schedules = [], c_error = Some ''Failed to load schedules.'', c_loading = False,
         c_console = [(LogError, ''Error fetching schedules:'', denied)]\<rparr>"
  by (simp add: returns_rows_def fails_with_def rows_ok_def broken_def fetchAllSchedules_def
      coach_init_def)

text \<open>
  C2. When the start time of every fetched event parses to a time value, the schedules
  stored by \<open>loadData\<close> are non-decreasing in that value, and so are those stored by
  \<open>fetchAllSchedules\<close> on the coach page when its practice query did not fail.
\<close>

theorem fetched_schedules_nondecreasing:
  "((\<forall>e\<in>set (allSchedules exec team). start_ms dp e \<noteq> None) \<longrightarrow>
      sorted_wrt time_le (map (start_ms dp) (schedules (loadData dp exec (Some team) st))))
   \<and> (error (exec (practice_query teamId)) = None
        \<and> (\<forall>e\<in>set (combinedSchedules exec teamId). cs_start_ms dp e \<noteq> None) \<longrightarrow>
      sorted_wrt time_le
        (map (cs_start_ms dp) (c_schedules (fetchAllSchedules dp exec teamId cst))))"
proof (intro conjI impI)
  assume "\<forall>e\<in>set (allSchedules exec team). start_ms dp e \<noteq> None"
  then show "sorted_wrt time_le (map (start_ms dp) (schedules (loadData dp exec (Some team) st)))"
    unfolding loadData_schedules by_start_time_key by (rule array_sort_nondecreasing)
next
  assume a: "error (exec (practice_query teamId)) = None
        \<and> (\<forall>e\<in>set (combinedSchedules exec teamId). cs_start_ms dp e \<noteq> None)"
  then have "c_schedules (fetchAllSchedules dp exec teamId cst)
      = array_sort (by_cs_start_time dp) (combinedSchedules exec teamId)"
    by (simp add: fetchAllSchedules_ok)
  moreover have "sorted_wrt time_le (map (cs_start_ms dp)
      (array_sort (\<lambda>a b. num_sub (cs_start_ms dp a) (cs_start_ms dp b)) (combinedSchedules exec teamId)))"
    using a by (intro array_sort_nondecreasing) simp
  ultimately show "sorted_wrt time_le
        (map (cs_start_ms dp) (c_schedules (fetchAllSchedules dp exec teamId cst)))"
    by (simp add: by_cs_start_time_key)
qed

theorem fetched_schedules_nondecreasing_witness:
  "map (start_ms sample_parse) (allSchedules
        (sample_exec (rows_ok [practice_row ''a1'' (JStr ''2025-06-01T10:00:00Z''),
                               practice_row ''a2'' (JStr ''2025-06-01T14:00:00Z'')])
           (rows_ok [meeting_row ''a1'' (JStr ''2025-06-01T12:00:00Z'')]) (rows_ok []))
        tigers) = [Some 1748772000000, Some 1748786400000, Some 1748779200000]
   \<and> error (sample_exec (rows_ok [practice_row ''a1'' (JStr ''2025-06-01T10:00:00Z''),
                               practice_row ''a2'' (JStr ''2025-06-01T14:00:00Z'')])
           (rows_ok [meeting_row ''a1'' (JStr ''2025-06-01T12:00:00Z'')]) (rows_ok [])
           (practice_query ''T1'')) = None
   \<and> map (cs_start_ms sample_parse) (combinedSchedules
        (sample_exec (rows_ok [practice_row ''a1'' (JStr ''2025-06-01T10:00:00Z''),
                               practice_row ''a2'' (JStr ''2025-06-01T14:00:00Z'')])
           (rows_ok [meeting_row ''a1'' (JStr ''2025-06-01T12:00:00Z'')]) (rows_ok []))
        ''T1'') = [Some 1748772000000, Some 1748786400000, Some 1748779200000]
   \<and> sorted_wrt time_le (map (start_ms sample_parse) (schedules (loadData sample_parse
        (sample_exec (rows_ok [practice_row ''a1'' (JStr ''2025-06-01T10:00:00Z''),
                               practice_row ''a2'' (JStr ''2025-06-01T14:00:00Z'')])
           (rows_ok [meeting_row ''a1'' (JStr ''2025-06-01T12:00:00Z'')]) (rows_ok []))
        (Some tigers) player_init)))
   \<and> sorted_wrt time_le (map (cs_start_ms sample_parse) (c_schedules (fetchAllSchedules sample_parse
        (sample_exec (rows_ok [practice_row ''a1'' (JStr ''2025-06-01T10:00:00Z''),
                               practice_row ''a2'' (JStr ''2025-06-01T14:00:00Z'')])
           (rows_ok [meeting_row ''a1'' (JStr ''2025-06-01T12:00:00Z'')]) (rows_ok []))
        ''T1'' coach_init)))"
proof -
  let ?X = "sample_exec (rows_ok [practice_row ''a1'' (JStr ''2025-06-01T10:00:00Z''),
                               practice_row ''a2'' (JStr ''2025-06-01T14:00:00Z'')])
           (rows_ok [meeting_row ''a1'' (JStr ''2025-06-01T12:00:00Z'')]) (rows_ok [])"
  have v1: "map (start_ms sample_parse) (allSchedules ?X tigers)
            = [Some 1748772000000, Some 1748786400000, Some 1748779200000]"
    by (simp add: allSchedules_def push_all_def rows_ok_def)
  have v2: "map (cs_start_ms sample_parse) (combinedSchedules ?X ''T1'')
            = [Some 1748772000000, Some 1748786400000, Some 1748779200000]"
    by (simp add: combinedSchedules_def push_all_def rows_ok_def)
  have e: "error (?X (practice_query ''T1'')) = None"
    by (simp add: rows_ok_def)
  have h1: "\<forall>e\<in>set (allSchedules ?X tigers). start_ms sample_parse e \<noteq> None"
    by (simp add: allSchedules_def push_all_def rows_ok_def)
  have h2: "error (?X (practice_query ''T1'')) = None
            \<and> (\<forall>e\<in>set (combinedSchedules ?X ''T1''). cs_start_ms sample_parse e \<noteq> None)"
    by (simp add: combinedSchedules_def push_all_def rows_ok_def)
  note inst = fetched_schedules_nondecreasing
    [where exec = ?X and team = tigers and dp = sample_parse and teamId = "''T1''"
       and st = player_init and cst = coach_init]
  from inst [THEN conjunct1, THEN mp, OF h1] inst [THEN conjunct2, THEN mp, OF h2] v1 v2 e
  show ?thesis by blast
qed

text \<open>
  C3. When every start time parses, the stored events that start at an instant \<open>t\<close> are,
  in this order, the practices at \<open>t\<close>, the meetings at \<open>t\<close> and the games at \<open>t\<close>, each
  group in the order its query returned it: only the position in the concatenation
  decides between events of equal start time.
\<close>

theorem equal_start_keeps_source_order:
  assumes "\<forall>e\<in>set (allSchedules exec team). start_ms dp e \<noteq> None"
  shows "filter (\<lambda>e. start_ms dp e = Some t) (schedules (loadData dp exec (Some team) st)) =
     filter (\<lambda>e. start_ms dp e = Some t)
        (push_all practice_event (data (exec (practice_query (t_id team)))))
     @ filter (\<lambda>e. start_ms dp e = Some t)
        (push_all meeting_event (data (exec (meeting_query (t_id team)))))
     @ filter (\<lambda>e. start_ms dp e = Some t)
        (push_all (game_event team) (data (exec (game_query (t_id team)))))"
proof -
  have "filter (\<lambda>e. start_ms dp e = Some t) (schedules (loadData dp exec (Some team) st))
        = filter (\<lambda>e. start_ms dp e = Some t) (allSchedules exec team)"
    unfolding loadData_schedules by_start_time_key using assms by (rule array_sort_stable)
  then show ?thesis
    by (simp add: allSchedules_def)
qed

theorem equal_start_keeps_source_order_witness:
  "map (start_ms sample_parse) (allSchedules
        (sample_exec (rows_ok [practice_row ''a1'' (JStr ''2025-06-01T10:00:00Z''),
                               practice_row ''a2'' (JStr ''2025-06-01T12:00:00Z'')])
           (rows_ok [meeting_row ''a1'' (JStr ''2025-06-01T12:00:00Z'')])
           (rows_ok [game_row ''g3'' ''T1'' ''T3'' (JStr ''2025-06-01T12:00:00Z'')]))
        tigers)
      = [Some 1748772000000, Some 1748779200000, Some 1748779200000, Some 1748779200000]
   \<and> filter (\<lambda>e. start_ms sample_parse e = Some 1748779200000)
        (schedules (loadData sample_parse
          (sample_exec (rows_ok [practice_row ''a1'' (JStr ''2025-06-01T10:00:00Z''),
                                 practice_row ''a2'' (JStr ''2025-06-01T12:00:00Z'')])
             (rows_ok [meeting_row ''a1'' (JStr ''2025-06-01T12:00:00Z'')])
             (rows_ok [game_row ''g3'' ''T1'' ''T3'' (JStr ''2025-06-01T12:00:00Z'')]))
          (Some tigers) player_init))
      = [practice_event (practice_row ''a2'' (JStr ''2025-06-01T12:00:00Z'')),
         meeting_event (meeting_row ''a1'' (JStr ''2025-06-01T12:00:00Z'')),
         game_event tigers (game_row ''g3'' ''T1'' ''T3'' (JStr ''2025-06-01T12:00:00Z''))]"
proof -
  let ?X = "sample_exec (rows_ok [practice_row ''a1'' (JStr ''2025-06-01T10:00:00Z''),
                               practice_row ''a2'' (JStr ''2025-06-01T12:00:00Z'')])
           (rows_ok [meeting_row ''a1'' (JStr ''2025-06-01T12:00:00Z'')])
           (rows_ok [game_row ''g3'' ''T1'' ''T3'' (JStr ''2025-06-01T12:00:00Z'')])"
  have v: "map (start_ms sample_parse) (allSchedules ?X tigers)
      = [Some 1748772000000, Some 1748779200000, Some 1748779200000, Some 1748779200000]"
    by (simp add: allSchedules_def push_all_def rows_ok_def)
  have h: "\<forall>e\<in>set (allSchedules ?X tigers). start_ms sample_parse e \<noteq> None"
    by (simp add: allSchedules_def push_all_def rows_ok_def)
  from equal_start_keeps_source_order [OF h, of 1748779200000 player_init] v
  show ?thesis
    by (simp add: push_all_def rows_ok_def)
qed

text \<open>
  C4, as the code has it. No row is rejected: \<open>loadData\<close> has no check of \<open>id\<close> or
  \<open>start_time\<close> and raises no error for a row. Every row of every batch that was fetched,
  whatever fields it has, is stored once with its tags (the stored schedules are a
  permutation of the tagged rows), and the error message of the page stays unset.
\<close>

theorem every_fetched_row_is_kept:
  "mset (schedules (loadData dp exec (Some team) st)) = mset (allSchedules exec team)
   \<and> length (schedules (loadData dp exec (Some team) st)) = length (allSchedules exec team)
   \<and> error_state (loadData dp exec (Some team) st) = None
   \<and> (\<forall>rows. data (exec (practice_query (t_id team))) = Some rows \<longrightarrow>
        (\<forall>r\<in>set rows. practice_event r \<in> set (schedules (loadData dp exec (Some team) st))))
   \<and> (\<forall>rows. data (exec (meeting_query (t_id team))) = Some rows \<longrightarrow>
        (\<forall>r\<in>set rows. meeting_event r \<in> set (schedules (loadData dp exec (Some team) st))))
   \<and> (\<forall>rows. data (exec (game_query (t_id team))) = Some rows \<longrightarrow>
        (\<forall>r\<in>set rows. game_event team r \<in> set (schedules (loadData dp exec (Some team) st))))"
  by (auto simp: loadData_schedules loadData_error_state mset_array_sort length_array_sort
      set_array_sort allSchedules_def push_all_def)

theorem every_fetched_row_is_kept_witness:
  "data (sample_exec (rows_ok [practice_row ''a1'' (JStr ''2025-06-01T10:00:00Z''),
                               practice_row ''a2'' (JStr ''2025-06-01T14:00:00Z''),
                               practice_row ''a3'' JNull])
           (rows_ok []) (rows_ok []) (practice_query (t_id tigers)))
     = Some [practice_row ''a1'' (JStr ''2025-06-01T10:00:00Z''),
             practice_row ''a2'' (JStr ''2025-06-01T14:00:00Z''),
             practice_row ''a3'' JNull]
   \<and> practice_row ''a3'' JNull \<in> set [practice_row ''a1'' (JStr ''2025-06-01T10:00:00Z''),
             practice_row ''a2'' (JStr ''2025-06-01T14:00:00Z''),
             practice_row ''a3'' JNull]
   \<and> practice_event (practice_row ''a3'' JNull) \<in> set (schedules (loadData sample_parse
        (sample_exec (rows_ok [practice_row ''a1'' (JStr ''2025-06-01T10:00:00Z''),
                               practice_row ''a2'' (JStr ''2025-06-01T14:00:00Z''),
                               practice_row ''a3'' JNull])
           (rows_ok []) (rows_ok []))
        (Some tigers) player_init))"
proof -
  let ?rows = "[practice_row ''a1'' (JStr ''2025-06-01T10:00:00Z''),
                practice_row ''a2'' (JStr ''2025-06-01T14:00:00Z''),
                practice_row ''a3'' JNull]"
  let ?X = "sample_exec (rows_ok ?rows) (rows_ok []) (rows_ok [])"
  have h1: "data (?X (practice_query (t_id tigers))) = Some ?rows"
    by (simp add: rows_ok_def)
  have h2: "practice_row ''a3'' JNull \<in> set ?rows"
    by simp
  from every_fetched_row_is_kept [of sample_parse ?X tigers player_init,
      THEN conjunct2, THEN conjunct2, THEN conjunct2, THEN conjunct1, rule_format, OF h1 h2] h1 h2
  show ?thesis by blast
qed

text \<open>
  C4 as stated fails on a batch of three practice rows of which one has \<open>start_time = null\<close>:
  the row is stored with the two others. Its date converts to the time value 0, so it
  comes first.
\<close>

theorem malformed_row_kept_counterexample:
  "fld (practice_row ''a3'' JNull) ''start_time'' = Some JNull
   \<and> schedules (loadData sample_parse
        (sample_exec (rows_ok [practice_row ''a1'' (JStr ''2025-06-01T10:00:00Z''),
                               practice_row ''a2'' (JStr ''2025-06-01T14:00:00Z''),
                               practice_row ''a3'' JNull])
           (rows_ok []) (rows_ok []))
        (Some tigers) player_init)
      = [practice_event (practice_row ''a3'' JNull),
         practice_event (practice_row ''a1'' (JStr ''2025-06-01T10:00:00Z'')),
         practice_event (practice_row ''a2'' (JStr ''2025-06-01T14:00:00Z''))]"
proof (rule conjI)
  show "fld (practice_row ''a3'' JNull) ''start_time'' = Some JNull"
    by (simp add: fld_def practice_row_def)
next
  show "schedules (loadData sample_parse
        (sample_exec (rows_ok [practice_row ''a1'' (JStr ''2025-06-01T10:00:00Z''),
                               practice_row ''a2'' (JStr ''2025-06-01T14:00:00Z''),
                               practice_row ''a3'' JNull])
           (rows_ok []) (rows_ok []))
        (Some tigers) player_init)
      = [practice_event (practice_row ''a3'' JNull),
         practice_event (practice_row ''a1'' (JStr ''2025-06-01T10:00:00Z'')),
         practice_event (practice_row ''a2'' (JStr ''2025-06-01T14:00:00Z''))]"
    by (simp add: loadData_schedules allSchedules_def push_all_def rows_ok_def
        sort_compare_by_start_time)
qed

text \<open>
  C6, as the code has it. The event built from a row reads, at every field, what the row
  has there (unset where the row has nothing), except for the added tags \<open>type\<close> and
  \<open>source_table\<close> and, for a game, \<open>team_id\<close>, which is set to the identifier of the
  player's team.
\<close>

theorem event_fields_frame:
  "fld (practice_event r) k =
     (if k = ''source_table'' then Some (JStr ''practice_schedules'')
      else if k = ''type'' then Some (JStr ''practice'') else fld r k)
   \<and> fld (meeting_event r) k =
     (if k = ''source_table'' then Some (JStr ''meeting_schedules'')
      else if k = ''type'' then Some (JStr ''meeting'') else fld r k)
   \<and> fld (game_event team r) k =
     (if k = ''team_id'' then Some (JStr (t_id team))
      else if k = ''source_table'' then Some (JStr ''schedules'')
      else if k = ''type'' then Some (JStr ''game'') else fld r k)"
  by (simp add: practice_event_def meeting_event_def game_event_def fld_update)

text \<open>
  C6 as stated fails for a game row: the row of the \<open>schedules\<close> table has no \<open>team_id\<close>,
  and the event stored for it has the player's team there.
\<close>

theorem game_team_id_counterexample:
  "fld (game_row ''g1'' ''T2'' ''T1'' (JStr ''2025-06-03T09:00:00Z'')) ''team_id'' = None
   \<and> fld (hd (schedules (loadData sample_parse
        (sample_exec (rows_ok []) (rows_ok [])
           (rows_ok [game_row ''g1'' ''T2'' ''T1'' (JStr ''2025-06-03T09:00:00Z'')]))
        (Some tigers) player_init))) ''team_id'' = Some (JStr ''T1'')"
  by (simp add: loadData_schedules allSchedules_def push_all_def rows_ok_def
      game_event_def fld_update tigers_def) (simp add: fld_def game_row_def)

text \<open>
  C8, as the code has it. The page has no reference instant: each card is classified
  against the clock reading of its own call. When the rendering returns, every schedule
  has one card, in the order of the input, and a card is upcoming exactly when its start
  time parses and lies after the reading of its call. If all readings of the pass are the
  same instant, the upcoming cards are exactly the schedules that start after it and, when
  every start time parses, the others exactly those that start at or before it; in
  general a schedule that starts after every reading is upcoming and one that starts at or
  before every reading is not. The rendering returns when every start time is a string and
  every truthy end time is a string.
\<close>

theorem cards_classified_by_clock:
  "(render_cards dp clock i E = Inr cs \<longrightarrow>
      map card_schedule cs = E
      \<and> (\<forall>k<length E. card_upcoming (cs ! k)
            = (\<exists>t. start_ms dp (E ! k) = Some t \<and> clock (i + k) < t))
      \<and> ((\<forall>k<length E. clock (i + k) = now) \<longrightarrow>
            map card_schedule (filter card_upcoming cs)
              = filter (\<lambda>e. \<exists>t. start_ms dp e = Some t \<and> now < t) E
            \<and> ((\<forall>e\<in>set E. start_ms dp e \<noteq> None) \<longrightarrow>
                 map card_schedule (filter (\<lambda>c. \<not> card_upcoming c) cs)
                   = filter (\<lambda>e. \<exists>t. start_ms dp e = Some t \<and> t \<le> now) E))
      \<and> ((\<forall>k<length E. lo \<le> clock (i + k) \<and> clock (i + k) \<le> hi) \<longrightarrow>
            (\<forall>k<length E. \<forall>t. start_ms dp (E ! k) = Some t \<longrightarrow>
               (hi < t \<longrightarrow> card_upcoming (cs ! k)) \<and> (t \<le> lo \<longrightarrow> \<not> card_upcoming (cs ! k)))))
   \<and> ((\<forall>s\<in>set E. is_string (fld s ''start_time'')
                    \<and> (truthy (fld s ''end_time'') \<longrightarrow> is_string (fld s ''end_time''))) \<longrightarrow>
      (\<exists>cards. render_cards dp clock i E = Inr cards))"
proof (intro conjI impI)
  assume r: "render_cards dp clock i E = Inr cs"
  show "map card_schedule cs = E"
    using r by (rule render_cards_schedules)
  show nth: "\<forall>k<length E. card_upcoming (cs ! k)
            = (\<exists>t. start_ms dp (E ! k) = Some t \<and> clock (i + k) < t)"
    using render_cards_nth [OF r] by (simp add: isUpcoming_start)
  {
    assume f: "\<forall>k<length E. clock (i + k) = now"
    from render_cards_frozen [OF r f]
    show "map card_schedule (filter card_upcoming cs)
              = filter (\<lambda>e. \<exists>t. start_ms dp e = Some t \<and> now < t) E"
      by (simp add: isUpcoming_start)
    assume v: "\<forall>e\<in>set E. start_ms dp e \<noteq> None"
    have "filter (\<lambda>e. \<not> isUpcoming dp now (fld e ''start_time'')) E
          = filter (\<lambda>e. \<exists>t. start_ms dp e = Some t \<and> t \<le> now) E"
      using v by (intro filter_cong refl not_isUpcoming_start) simp
    with render_cards_frozen [OF r f]
    show "map card_schedule (filter (\<lambda>c. \<not> card_upcoming c) cs)
                   = filter (\<lambda>e. \<exists>t. start_ms dp e = Some t \<and> t \<le> now) E"
      by simp
  }
  {
    assume b: "\<forall>k<length E. lo \<le> clock (i + k) \<and> clock (i + k) \<le> hi"
    show "\<forall>k<length E. \<forall>t. start_ms dp (E ! k) = Some t \<longrightarrow>
               (hi < t \<longrightarrow> card_upcoming (cs ! k)) \<and> (t \<le> lo \<longrightarrow> \<not> card_upcoming (cs ! k))"
      using nth b by fastforce
  }
next
  assume "\<forall>s\<in>set E. is_string (fld s ''start_time'')
                    \<and> (truthy (fld s ''end_time'') \<longrightarrow> is_string (fld s ''end_time''))"
  then show "\<exists>cards. render_cards dp clock i E = Inr cards"
    by (rule render_cards_returns)
qed

theorem cards_classified_by_clock_witness:
  "render_cards sample_parse (frozen_clock 1748779200000) 0
     [practice_event (practice_row ''a1'' (JStr ''2025-06-01T10:00:00Z'')),
      meeting_event (meeting_row ''a1'' (JStr ''2025-06-01T12:00:00Z'')),
      practice_event (practice_row ''a2'' (JStr ''2025-06-01T14:00:00Z'')),
      game_event tigers (game_row ''g1'' ''T2'' ''T1'' (JStr ''2025-06-03T09:00:00Z''))]
     = Inr [\<lparr>card_schedule = practice_event (practice_row ''a1'' (JStr ''2025-06-01T10:00:00Z'')),
             card_upcoming = False, card_date = ''2025-06-01'',
             card_startTime = Some ''10:00'', card_endTime = None\<rparr>,
            \<lparr>card_schedule = meeting_event (meeting_row ''a1'' (JStr ''2025-06-01T12:00:00Z'')),
             card_upcoming = False, card_date = ''2025-06-01'',
             card_startTime = Some ''12:00'', card_endTime = None\<rparr>,
            \<lparr>card_schedule = practice_event (practice_row ''a2'' (JStr ''2025-06-01T14:00:00Z'')),
             card_upcoming = True, card_date = ''2025-06-01'',
             card_startTime = Some ''14:00'', card_endTime = None\<rparr>,
            \<lparr>card_schedule = game_event tigers (game_row ''g1'' ''T2'' ''T1'' (JStr ''2025-06-03T09:00:00Z'')),
             card_upcoming = True, card_date = ''2025-06-03'',
             card_startTime = Some ''09:00'', card_endTime = None\<rparr>]
   \<and> map card_schedule (filter card_upcoming
           [\<lparr>card_schedule = practice_event (practice_row ''a1'' (JStr ''2025-06-01T10:00:00Z'')),
             card_upcoming = False, card_date = ''2025-06-01'',
             card_startTime = Some ''10:00'', card_endTime = None\<rparr>,
            \<lparr>card_schedule = meeting_event (meeting_row ''a1'' (JStr ''2025-06-01T12:00:00Z'')),
             card_upcoming = False, card_date = ''2025-06-01'',
             card_startTime = Some ''12:00'', card_endTime = None\<rparr>,
            \<lparr>card_schedule = practice_event (practice_row ''a2'' (JStr ''2025-06-01T14:00:00Z'')),
             card_upcoming = True, card_date = ''2025-06-01'',
             card_startTime = Some ''14:00'', card_endTime = None\<rparr>,
            \<lparr>card_schedule = game_event tigers (game_row ''g1'' ''T2'' ''T1'' (JStr ''2025-06-03T09:00:00Z'')),
             card_upcoming = True, card_date = ''2025-06-03'',
             card_startTime = Some ''09:00'', card_endTime = None\<rparr>])
     = [practice_event (practice_row ''a2'' (JStr ''2025-06-01T14:00:00Z'')),
        game_event tigers (game_row ''g1'' ''T2'' ''T1'' (JStr ''2025-06-03T09:00:00Z''))]
   \<and> map card_schedule (filter (\<lambda>c. \<not> card_upcoming c)
           [\<lparr>card_schedule = practice_event (practice_row ''a1'' (JStr ''2025-06-01T10:00:00Z'')),
             card_upcoming = False, card_date = ''2025-06-01'',
             card_startTime = Some ''10:00'', card_endTime = None\<rparr>,
            \<lparr>card_schedule = meeting_event (meeting_row ''a1'' (JStr ''2025-06-01T12:00:00Z'')),
             card_upcoming = False, card_date = ''2025-06-01'',
             card_startTime = Some ''12:00'', card_endTime = None\<rparr>,
            \<lparr>card_schedule = practice_event (practice_row ''a2'' (JStr ''2025-06-01T14:00:00Z'')),
             card_upcoming = True, card_date = ''2025-06-01'',
             card_startTime = Some ''14:00'', card_endTime = None\<rparr>,
            \<lparr>card_schedule = game_event tigers (game_row ''g1'' ''T2'' ''T1'' (JStr ''2025-06-03T09:00:00Z'')),
             card_upcoming = True, card_date = ''2025-06-03'',
             card_startTime = Some ''09:00'', card_endTime = None\<rparr>])
     = [practice_event (practice_row ''a1'' (JStr ''2025-06-01T10:00:00Z'')),
        meeting_event (meeting_row ''a1'' (JStr ''2025-06-01T12:00:00Z''))]"
proof -
  let ?E = "[practice_event (practice_row ''a1'' (JStr ''2025-06-01T10:00:00Z'')),
      meeting_event (meeting_row ''a1'' (JStr ''2025-06-01T12:00:00Z'')),
      practice_event (practice_row ''a2'' (JStr ''2025-06-01T14:00:00Z'')),
      game_event tigers (game_row ''g1'' ''T2'' ''T1'' (JStr ''2025-06-03T09:00:00Z''))]"
  let ?cs = "[\<lparr>card_schedule = practice_event (practice_row ''a1'' (JStr ''2025-06-01T10:00:00Z'')),
             card_upcoming = False, card_date = ''2025-06-01'',
             card_startTime = Some ''10:00'', card_endTime = None\<rparr>,
            \<lparr>card_schedule = meeting_event (meeting_row ''a1'' (JStr ''2025-06-01T12:00:00Z'')),
             card_upcoming = False, card_date = ''2025-06-01'',
             card_startTime = Some ''12:00'', card_endTime = None\<rparr>,
            \<lparr>card_schedule = practice_event (practice_row ''a2'' (JStr ''2025-06-01T14:00:00Z'')),
             card_upcoming = True, card_date = ''2025-06-01'',
             card_startTime = Some ''14:00'', card_endTime = None\<rparr>,
            \<lparr>card_schedule = game_event tigers (game_row ''g1'' ''T2'' ''T1'' (JStr ''2025-06-03T09:00:00Z'')),
             card_upcoming = True, card_date = ''2025-06-03'',
             card_startTime = Some ''09:00'', card_endTime = None\<rparr>]"
  have r: "render_cards sample_parse (frozen_clock 1748779200000) 0 ?E = Inr ?cs"
    by (simp add: render_card_def render_sample_simps getDateFromTimestamp_def
        getTimeFromTimestamp_def isUpcoming_def frozen_clock_def)
  have f: "\<forall>k<length ?E. frozen_clock 1748779200000 (0 + k) = 1748779200000"
    by (simp add: frozen_clock_def)
  have v: "\<forall>e\<in>set ?E. start_ms sample_parse e \<noteq> None"
    by simp
  note inst = cards_classified_by_clock
    [where dp = sample_parse and clock = "frozen_clock 1748779200000" and i = 0 and E = ?E
       and cs = ?cs and now = 1748779200000,
     THEN conjunct1, THEN mp, OF r, THEN conjunct2, THEN conjunct2, THEN conjunct1, THEN mp, OF f]
  have up: "filter (\<lambda>e. \<exists>t. start_ms sample_parse e = Some t \<and> 1748779200000 < t) ?E
      = [practice_event (practice_row ''a2'' (JStr ''2025-06-01T14:00:00Z'')),
         game_event tigers (game_row ''g1'' ''T2'' ''T1'' (JStr ''2025-06-03T09:00:00Z''))]"
    by simp
  have past: "filter (\<lambda>e. \<exists>t. start_ms sample_parse e = Some t \<and> t \<le> 1748779200000) ?E
      = [practice_event (practice_row ''a1'' (JStr ''2025-06-01T10:00:00Z'')),
         meeting_event (meeting_row ''a1'' (JStr ''2025-06-01T12:00:00Z''))]"
    by simp
  show ?thesis
    by (rule conjI [OF r conjI [OF trans [OF inst [THEN conjunct1] up]
          trans [OF inst [THEN conjunct2, THEN mp, OF v] past]]])
qed

text \<open>
  C8 as stated fails on two schedules with the same start time when the clock passes that
  instant between the two calls: the first card is upcoming and the second is not, so no
  reference instant separates the two classes.
\<close>

theorem same_start_two_classes_counterexample:
  "render_cards sample_parse (ticking_clock 1748779199999) 0
     [practice_event (practice_row ''a1'' (JStr ''2025-06-01T12:00:00Z'')),
      meeting_event (meeting_row ''a1'' (JStr ''2025-06-01T12:00:00Z''))]
     = Inr [\<lparr>card_schedule = practice_event (practice_row ''a1'' (JStr ''2025-06-01T12:00:00Z'')),
             card_upcoming = True, card_date = ''2025-06-01'',
             card_startTime = Some ''12:00'', card_endTime = None\<rparr>,
            \<lparr>card_schedule = meeting_event (meeting_row ''a1'' (JStr ''2025-06-01T12:00:00Z'')),
             card_upcoming = False, card_date = ''2025-06-01'',
             card_startTime = Some ''12:00'', card_endTime = None\<rparr>]
   \<and> start_ms sample_parse (practice_event (practice_row ''a1'' (JStr ''2025-06-01T12:00:00Z'')))
       = Some 1748779200000
   \<and> start_ms sample_parse (meeting_event (meeting_row ''a1'' (JStr ''2025-06-01T12:00:00Z'')))
       = Some 1748779200000
   \<and> ticking_clock 1748779199999 0 = 1748779199999
   \<and> ticking_clock 1748779199999 1 = 1748779200000"
  by (simp add: render_card_def render_sample_simps getDateFromTimestamp_def
      getTimeFromTimestamp_def isUpcoming_def ticking_clock_def)

text \<open>
  C9. The type filter of the player page is a total function on lists: filtering twice
  equals filtering once, the result is a subsequence of the input, \<open>all\<close> keeps every
  event, and any other filter keeps exactly the events of that type. On the coach page the
  same filter is combined with a search term: with the empty term it is the type filter
  and never fails, and whenever it returns, filtering its result again returns the same
  list, a subsequence of the input with events of the chosen type only.
\<close>

theorem filter_by_type:
  "filteredSchedules flt (filteredSchedules flt E) = filteredSchedules flt E
   \<and> subseq (filteredSchedules flt E) E
   \<and> filteredSchedules ''all'' E = E
   \<and> (flt \<noteq> ''all'' \<longrightarrow>
        filteredSchedules flt E = filter (\<lambda>e. fld e ''type'' = Some (JStr flt)) E)
   \<and> coach_filteredSchedules lc flt [] C = Inr (filter (\<lambda>s. flt = ''all'' \<or> cs_type s = flt) C)
   \<and> (coach_filteredSchedules lc flt q C = Inr ys \<longrightarrow>
        coach_filteredSchedules lc flt q ys = Inr ys \<and> subseq ys C
        \<and> (flt \<noteq> ''all'' \<longrightarrow> (\<forall>s\<in>set ys. cs_type s = flt)))"
proof (intro conjI impI)
  show "filteredSchedules flt (filteredSchedules flt E) = filteredSchedules flt E"
    by (simp add: filteredSchedules_def)
  show "subseq (filteredSchedules flt E) E"
    by (simp add: filteredSchedules_def)
  show "filteredSchedules ''all'' E = E"
    by (simp add: filteredSchedules_def)
  show "filteredSchedules flt E = filter (\<lambda>e. fld e ''type'' = Some (JStr flt)) E"
    if "flt \<noteq> ''all''"
    using that by (simp add: filteredSchedules_def)
  show "coach_filteredSchedules lc flt [] C = Inr (filter (\<lambda>s. flt = ''all'' \<or> cs_type s = flt) C)"
    by (simp add: coach_filteredSchedules_def schedule_matches_no_search [abs_def] filter_exn_total)
next
  assume a: "coach_filteredSchedules lc flt q C = Inr ys"
  then have ys: "ys = filter (\<lambda>x. schedule_matches lc flt q x = Inr True) C"
    unfolding coach_filteredSchedules_def by (rule filter_exn_Inr)
  then have t: "\<forall>s\<in>set ys. schedule_matches lc flt q s = Inr True"
    by simp
  then show "coach_filteredSchedules lc flt q ys = Inr ys"
    unfolding coach_filteredSchedules_def by (rule filter_exn_all_true)
  show "subseq ys C"
    using ys by simp
  show "\<forall>s\<in>set ys. cs_type s = flt" if "flt \<noteq> ''all''"
    using t that schedule_matches_type by blast
qed


theorem filter_by_type_witness:
  "filteredSchedules ''meeting''
     [practice_event (practice_row ''a1'' (JStr ''2025-06-01T10:00:00Z'')),
      meeting_event (meeting_row ''a1'' (JStr ''2025-06-01T12:00:00Z'')),
      practice_event (practice_row ''a2'' (JStr ''2025-06-01T14:00:00Z'')),
      meeting_event (meeting_row ''a2'' (JStr ''2025-06-02T09:00:00Z'')),
      game_event tigers (game_row ''g1'' ''T2'' ''T1'' (JStr ''2025-06-03T09:00:00Z''))]
     = [meeting_event (meeting_row ''a1'' (JStr ''2025-06-01T12:00:00Z'')),
        meeting_event (meeting_row ''a2'' (JStr ''2025-06-02T09:00:00Z''))]
   \<and> coach_filteredSchedules ascii_lower ''game'' ''CUP''
       [combined_practice (practice_row ''a1'' (JStr ''2025-06-01T10:00:00Z'')),
        combined_game (league_row ''c1'' (JStr ''2025-06-04T09:00:00Z'')),
        combined_meeting (meeting_row ''a1'' (JStr ''2025-06-01T12:00:00Z''))]
     = Inr [combined_game (league_row ''c1'' (JStr ''2025-06-04T09:00:00Z''))]
   \<and> coach_filteredSchedules ascii_lower ''game'' ''CUP''
       [combined_game (league_row ''c1'' (JStr ''2025-06-04T09:00:00Z''))]
     = Inr [combined_game (league_row ''c1'' (JStr ''2025-06-04T09:00:00Z''))]"
proof -
  let ?E = "[practice_event (practice_row ''a1'' (JStr ''2025-06-01T10:00:00Z'')),
      meeting_event (meeting_row ''a1'' (JStr ''2025-06-01T12:00:00Z'')),
      practice_event (practice_row ''a2'' (JStr ''2025-06-01T14:00:00Z'')),
      meeting_event (meeting_row ''a2'' (JStr ''2025-06-02T09:00:00Z'')),
      game_event tigers (game_row ''g1'' ''T2'' ''T1'' (JStr ''2025-06-03T09:00:00Z''))]"
  let ?C = "[combined_practice (practice_row ''a1'' (JStr ''2025-06-01T10:00:00Z'')),
        combined_game (league_row ''c1'' (JStr ''2025-06-04T09:00:00Z'')),
        combined_meeting (meeting_row ''a1'' (JStr ''2025-06-01T12:00:00Z''))]"
  note inst = filter_by_type [where flt = "''meeting''" and E = ?E]
  have n: "''meeting'' \<noteq> ''all''" by simp
  have types: "map (\<lambda>e. fld e ''type'') ?E
      = [Some (JStr ''practice''), Some (JStr ''meeting''), Some (JStr ''practice''),
         Some (JStr ''meeting''), Some (JStr ''game'')]"
    by (simp add: practice_event_def meeting_event_def game_event_def fld_update)
  from inst [THEN conjunct2, THEN conjunct2, THEN conjunct2, THEN conjunct1, THEN mp, OF n] types
  have player: "filteredSchedules ''meeting'' ?E
     = [meeting_event (meeting_row ''a1'' (JStr ''2025-06-01T12:00:00Z'')),
        meeting_event (meeting_row ''a2'' (JStr ''2025-06-02T09:00:00Z''))]"
    by simp
  have h: "coach_filteredSchedules ascii_lower ''game'' ''CUP'' ?C
     = Inr [combined_game (league_row ''c1'' (JStr ''2025-06-04T09:00:00Z''))]"
    by (simp add: coach_filteredSchedules_def schedule_matches_def ascii_lower_def sublist_code
        combined_practice_def combined_game_def combined_meeting_def fld_def league_row_def)
  from filter_by_type [where flt = "''game''" and lc = ascii_lower and q = "''CUP''" and C = ?C
      and ys = "[combined_game (league_row ''c1'' (JStr ''2025-06-04T09:00:00Z''))]",
      THEN conjunct2, THEN conjunct2, THEN conjunct2, THEN conjunct2, THEN conjunct2, THEN mp,
      OF h, THEN conjunct1] player h
  show ?thesis by blast
qed

text \<open>
  C10. On the player dashboard each of the three queries carries the limit 10, so the
  data source returns at most 10 rows for each; the list of upcoming events is the first
  five of the merged events sorted by start time, so it has at most five elements. When
  the start times parse it is the first five of the stable sort, it is non-decreasing,
  and every event it holds starts no later than every fetched event it leaves out.
\<close>

theorem dashboard_five_earliest:
  "length (fetchPlayerData dp exec cd team) = min 5 (length (dash_allEvents exec cd team))
   \<and> length (fetchPlayerData dp exec cd team) \<le> 5
   \<and> q_limit (dash_practice_query cd tid) = Some 10
   \<and> q_limit (dash_meeting_query cd tid) = Some 10
   \<and> q_limit (dash_game_query cd tid) = Some 10
   \<and> (\<forall>rows. data (queryRows dp db (dash_practice_query cd tid)) = Some rows \<longrightarrow> length rows \<le> 10)
   \<and> (\<forall>rows. data (queryRows dp db (dash_meeting_query cd tid)) = Some rows \<longrightarrow> length rows \<le> 10)
   \<and> (\<forall>rows. data (queryRows dp db (dash_game_query cd tid)) = Some rows \<longrightarrow> length rows \<le> 10)
   \<and> ((\<forall>e\<in>set (dash_allEvents exec cd team). start_ms dp e \<noteq> None) \<longrightarrow>
        fetchPlayerData dp exec cd team
          = take 5 (sort_key (\<lambda>e. the (start_ms dp e)) (dash_allEvents exec cd team))
        \<and> sorted_wrt time_le (map (start_ms dp) (fetchPlayerData dp exec cd team))
        \<and> (\<exists>rest. mset (fetchPlayerData dp exec cd team) + mset rest
                     = mset (dash_allEvents exec cd team)
                   \<and> (\<forall>a\<in>set (fetchPlayerData dp exec cd team). \<forall>b\<in>set rest.
                         time_le (start_ms dp a) (start_ms dp b))))"
proof (intro conjI impI allI)
  let ?all = "dash_allEvents exec cd team"
  let ?s = "array_sort (by_start_time dp) ?all"
  show len: "length (fetchPlayerData dp exec cd team) = min 5 (length ?all)"
    by (simp add: fetchPlayerData_def length_array_sort)
  show "length (fetchPlayerData dp exec cd team) \<le> 5"
    by (simp add: fetchPlayerData_def)
  show "q_limit (dash_practice_query cd tid) = Some 10"
    "q_limit (dash_meeting_query cd tid) = Some 10"
    "q_limit (dash_game_query cd tid) = Some 10"
    by simp_all
  show "length rows \<le> 10" if "data (queryRows dp db (dash_practice_query cd tid)) = Some rows" for rows
    using that by (intro queryRows_limited [of "dash_practice_query cd tid" 10 dp db]) simp_all
  show "length rows \<le> 10" if "data (queryRows dp db (dash_meeting_query cd tid)) = Some rows" for rows
    using that by (intro queryRows_limited [of "dash_meeting_query cd tid" 10 dp db]) simp_all
  show "length rows \<le> 10" if "data (queryRows dp db (dash_game_query cd tid)) = Some rows" for rows
    using that by (intro queryRows_limited [of "dash_game_query cd tid" 10 dp db]) simp_all
next
  let ?all = "dash_allEvents exec cd team"
  let ?s = "array_sort (by_start_time dp) ?all"
  assume v: "\<forall>e\<in>set ?all. start_ms dp e \<noteq> None"
  then show "fetchPlayerData dp exec cd team = take 5 (sort_key (\<lambda>e. the (start_ms dp e)) ?all)"
    by (simp add: fetchPlayerData_def by_start_time_key array_sort_sort_key)
  have sorted_all: "sorted_wrt time_le (map (start_ms dp) ?s)"
    unfolding by_start_time_key using v by (rule array_sort_nondecreasing)
  then have sw: "sorted_wrt (\<lambda>a b. time_le (start_ms dp a) (start_ms dp b)) ?s"
    by (simp add: sorted_wrt_map)
  from sorted_wrt_take [OF sw, of 5]
  show "sorted_wrt time_le (map (start_ms dp) (fetchPlayerData dp exec cd team))"
    by (simp add: fetchPlayerData_def sorted_wrt_map)
  have "mset (take 5 ?s) + mset (drop 5 ?s) = mset ?all"
    by (metis append_take_drop_id mset_append mset_array_sort)
  moreover have "\<forall>a\<in>set (take 5 ?s). \<forall>b\<in>set (drop 5 ?s). time_le (start_ms dp a) (start_ms dp b)"
    using sw by (rule sorted_wrt_take_drop)
  ultimately show "\<exists>rest. mset (fetchPlayerData dp exec cd team) + mset rest = mset ?all
                   \<and> (\<forall>a\<in>set (fetchPlayerData dp exec cd team). \<forall>b\<in>set rest.
                         time_le (start_ms dp a) (start_ms dp b))"
    unfolding fetchPlayerData_def by blast
qed

theorem dashboard_five_earliest_witness:
  "map (start_ms sample_parse) (dash_allEvents
      (sample_exec
        (rows_ok [practice_row ''a1'' (JStr ''2025-06-01T10:00:00Z''),
                  practice_row ''a2'' (JStr ''2025-06-01T14:00:00Z''),
                  practice_row ''a4'' (JStr ''2025-06-03T09:00:00Z''),
                  practice_row ''a5'' (JStr ''2025-06-05T09:00:00Z'')])
        (rows_ok [meeting_row ''a1'' (JStr ''2025-06-01T12:00:00Z''),
                  meeting_row ''a2'' (JStr ''2025-06-02T09:00:00Z'')])
        (rows_ok [game_row ''g1'' ''T2'' ''T1'' (JStr ''2025-06-04T09:00:00Z'')]))
      ''2025-06-01T10:00:00Z'' tigers)
     = [Some 1748772000000, Some 1748786400000, Some 1748941200000, Some 1749114000000,
        Some 1748779200000, Some 1748854800000, Some 1749027600000]
   \<and> fetchPlayerData sample_parse
      (sample_exec
        (rows_ok [practice_row ''a1'' (JStr ''2025-06-01T10:00:00Z''),
                  practice_row ''a2'' (JStr ''2025-06-01T14:00:00Z''),
                  practice_row ''a4'' (JStr ''2025-06-03T09:00:00Z''),
                  practice_row ''a5'' (JStr ''2025-06-05T09:00:00Z'')])
        (rows_ok [meeting_row ''a1'' (JStr ''2025-06-01T12:00:00Z''),
                  meeting_row ''a2'' (JStr ''2025-06-02T09:00:00Z'')])
        (rows_ok [game_row ''g1'' ''T2'' ''T1'' (JStr ''2025-06-04T09:00:00Z'')]))
      ''2025-06-01T10:00:00Z'' tigers
     = [dash_event ''practice'' (practice_row ''a1'' (JStr ''2025-06-01T10:00:00Z'')),
        dash_event ''meeting'' (meeting_row ''a1'' (JStr ''2025-06-01T12:00:00Z'')),
        dash_event ''practice'' (practice_row ''a2'' (JStr ''2025-06-01T14:00:00Z'')),
        dash_event ''meeting'' (meeting_row ''a2'' (JStr ''2025-06-02T09:00:00Z'')),
        dash_event ''practice'' (practice_row ''a4'' (JStr ''2025-06-03T09:00:00Z''))]"
proof -
  let ?X = "sample_exec
        (rows_ok [practice_row ''a1'' (JStr ''2025-06-01T10:00:00Z''),
                  practice_row ''a2'' (JStr ''2025-06-01T14:00:00Z''),
                  practice_row ''a4'' (JStr ''2025-06-03T09:00:00Z''),
                  practice_row ''a5'' (JStr ''2025-06-05T09:00:00Z'')])
        (rows_ok [meeting_row ''a1'' (JStr ''2025-06-01T12:00:00Z''),
                  meeting_row ''a2'' (JStr ''2025-06-02T09:00:00Z'')])
        (rows_ok [game_row ''g1'' ''T2'' ''T1'' (JStr ''2025-06-04T09:00:00Z'')])"
  have all: "dash_allEvents ?X ''2025-06-01T10:00:00Z'' tigers
     = [dash_event ''practice'' (practice_row ''a1'' (JStr ''2025-06-01T10:00:00Z'')),
        dash_event ''practice'' (practice_row ''a2'' (JStr ''2025-06-01T14:00:00Z'')),
        dash_event ''practice'' (practice_row ''a4'' (JStr ''2025-06-03T09:00:00Z'')),
        dash_event ''practice'' (practice_row ''a5'' (JStr ''2025-06-05T09:00:00Z'')),
        dash_event ''meeting'' (meeting_row ''a1'' (JStr ''2025-06-01T12:00:00Z'')),
        dash_event ''meeting'' (meeting_row ''a2'' (JStr ''2025-06-02T09:00:00Z'')),
        dash_event ''game'' (game_row ''g1'' ''T2'' ''T1'' (JStr ''2025-06-04T09:00:00Z''))]"
    by (simp add: dash_allEvents_def push_nonempty_def rows_ok_def)
  have v: "map (start_ms sample_parse) (dash_allEvents ?X ''2025-06-01T10:00:00Z'' tigers)
     = [Some 1748772000000, Some 1748786400000, Some 1748941200000, Some 1749114000000,
        Some 1748779200000, Some 1748854800000, Some 1749027600000]"
    unfolding all by simp
  have h: "\<forall>e\<in>set (dash_allEvents ?X ''2025-06-01T10:00:00Z'' tigers). start_ms sample_parse e \<noteq> None"
    unfolding all by simp
  note inst = dashboard_five_earliest
    [where dp = sample_parse and exec = ?X and cd = "''2025-06-01T10:00:00Z''" and team = tigers]
  from inst [THEN conjunct2, THEN conjunct2, THEN conjunct2, THEN conjunct2, THEN conjunct2,
      THEN conjunct2, THEN conjunct2, THEN conjunct2, THEN mp, OF h, THEN conjunct1]
  have "fetchPlayerData sample_parse ?X ''2025-06-01T10:00:00Z'' tigers
      = take 5 (sort_key (\<lambda>e. the (start_ms sample_parse e))
                 (dash_allEvents ?X ''2025-06-01T10:00:00Z'' tigers))" .
  then show ?thesis
    unfolding all using v by simp
qed

text \<open>
  C5, as the code has it. On the player schedule page and on the player dashboard the
  game query reads the table \<open>schedules\<close> and selects exactly the rows whose \<open>team1_id\<close>
  or \<open>team2_id\<close> is the team (on the dashboard also restricted to start times from the
  current date on, and cut to 10 rows), with the ordering, limit and time filter of the
  practice and meeting queries of the same page. On the coach schedule page the game
  query reads the table \<open>game_schedules\<close> and selects the rows whose \<open>team_id\<close> is the
  team, with the ordering of the two other queries.
\<close>

theorem game_query_selection:
  "(db ''schedules'' = Some rows \<longrightarrow>
      data (queryRows dp db (game_query tid)) =
        Some (order_rows dp (Some (''start_time'', True))
               (filter (\<lambda>r. fld r ''team1_id'' = Some (JStr tid) \<or> fld r ''team2_id'' = Some (JStr tid))
                  rows)))
   \<and> q_order (game_query tid) = q_order (practice_query tid)
   \<and> q_order (game_query tid) = q_order (meeting_query tid)
   \<and> q_limit (game_query tid) = q_limit (practice_query tid)
   \<and> q_limit (game_query tid) = q_limit (meeting_query tid)
   \<and> time_filters (game_query tid) = time_filters (practice_query tid)
   \<and> time_filters (game_query tid) = time_filters (meeting_query tid)
   \<and> (db ''schedules'' = Some rows \<longrightarrow>
      data (queryRows dp db (dash_game_query cd tid)) =
        Some (take 10 (order_rows dp (Some (''start_time'', True))
               (filter (\<lambda>r. (fld r ''team1_id'' = Some (JStr tid) \<or> fld r ''team2_id'' = Some (JStr tid))
                             \<and> row_matches dp r (FGte ''start_time'' cd))
                  rows))))
   \<and> q_order (dash_game_query cd tid) = q_order (dash_practice_query cd tid)
   \<and> q_order (dash_game_query cd tid) = q_order (dash_meeting_query cd tid)
   \<and> q_limit (dash_game_query cd tid) = q_limit (dash_practice_query cd tid)
   \<and> q_limit (dash_game_query cd tid) = q_limit (dash_meeting_query cd tid)
   \<and> time_filters (dash_game_query cd tid) = time_filters (dash_practice_query cd tid)
   \<and> time_filters (dash_game_query cd tid) = time_filters (dash_meeting_query cd tid)
   \<and> (db ''game_schedules'' = Some rows \<longrightarrow>
      data (queryRows dp db (coach_game_query tid)) =
        Some (order_rows dp (Some (''start_time'', True))
               (filter (\<lambda>r. fld r ''team_id'' = Some (JStr tid)) rows)))
   \<and> q_order (coach_game_query tid) = q_order (practice_query tid)
   \<and> q_limit (coach_game_query tid) = q_limit (practice_query tid)
   \<and> time_filters (coach_game_query tid) = time_filters (practice_query tid)"
  by (simp add: queryRows_data limit_rows_def time_filters_def)

theorem game_query_selection_witness:
  "sample_db ''schedules''
     = Some [game_row ''g1'' ''T2'' ''T1'' (JStr ''2025-06-03T09:00:00Z''),
             game_row ''g2'' ''T2'' ''T3'' (JStr ''2025-06-02T09:00:00Z''),
             game_row ''g3'' ''T1'' ''T3'' (JStr ''2025-06-01T12:00:00Z'')]
   \<and> data (queryRows sample_parse sample_db (game_query ''T1''))
     = Some [game_row ''g3'' ''T1'' ''T3'' (JStr ''2025-06-01T12:00:00Z''),
             game_row ''g1'' ''T2'' ''T1'' (JStr ''2025-06-03T09:00:00Z'')]
   \<and> data (queryRows sample_parse sample_db (dash_game_query ''2025-06-02T09:00:00Z'' ''T1''))
     = Some [game_row ''g1'' ''T2'' ''T1'' (JStr ''2025-06-03T09:00:00Z'')]"
proof -
  let ?rows = "[game_row ''g1'' ''T2'' ''T1'' (JStr ''2025-06-03T09:00:00Z''),
             game_row ''g2'' ''T2'' ''T3'' (JStr ''2025-06-02T09:00:00Z''),
             game_row ''g3'' ''T1'' ''T3'' (JStr ''2025-06-01T12:00:00Z'')]"
  have h: "sample_db ''schedules'' = Some ?rows"
    by (simp add: sample_db_def)
  have f: "fld (game_row i a b t) ''team1_id'' = Some (JStr a)"
    "fld (game_row i a b t) ''team2_id'' = Some (JStr b)"
    "db_time sample_parse (game_row i a b (JStr z)) ''start_time'' = sample_parse z" for i a b t z
    by (simp_all add: fld_def game_row_def db_time_def)
  note inst = game_query_selection
    [where db = sample_db and rows = ?rows and dp = sample_parse and tid = "''T1''"
       and cd = "''2025-06-02T09:00:00Z''"]
  from inst [THEN conjunct1, THEN mp, OF h]
  have a: "data (queryRows sample_parse sample_db (game_query ''T1''))
     = Some [game_row ''g3'' ''T1'' ''T3'' (JStr ''2025-06-01T12:00:00Z''),
             game_row ''g1'' ''T2'' ''T1'' (JStr ''2025-06-03T09:00:00Z'')]"
    by (simp add: order_rows_def f)
  from inst [THEN conjunct2, THEN conjunct2, THEN conjunct2, THEN conjunct2, THEN conjunct2,
      THEN conjunct2, THEN conjunct2, THEN conjunct1, THEN mp, OF h]
  have b: "data (queryRows sample_parse sample_db (dash_game_query ''2025-06-02T09:00:00Z'' ''T1''))
     = Some [game_row ''g1'' ''T2'' ''T1'' (JStr ''2025-06-03T09:00:00Z'')]"
    by (simp add: order_rows_def f)
  from h a b show ?thesis by blast
qed

text \<open>
  C5 as stated fails on the coach schedule page: its game query selects a row of
  \<open>game_schedules\<close> by \<open>team_id\<close>, a row that has neither \<open>team1_id\<close> nor \<open>team2_id\<close>.
\<close>

theorem coach_game_query_counterexample:
  "data (queryRows sample_parse sample_db (coach_game_query ''T1''))
     = Some [league_row ''c1'' (JStr ''2025-06-04T09:00:00Z'')]
   \<and> fld (league_row ''c1'' (JStr ''2025-06-04T09:00:00Z'')) ''team1_id'' = None
   \<and> fld (league_row ''c1'' (JStr ''2025-06-04T09:00:00Z'')) ''team2_id'' = None
   \<and> q_table (coach_game_query ''T1'') = ''game_schedules''
   \<and> q_filters (coach_game_query ''T1'') = [FEq ''team_id'' ''T1'']"
proof -
  have f: "fld (league_row i t) ''team_id'' = Some (JStr ''T1'')"
    "fld (league_row i t) ''team1_id'' = None"
    "fld (league_row i t) ''team2_id'' = None"
    "db_time sample_parse (league_row i (JStr z)) ''start_time'' = sample_parse z" for i t z
    by (simp_all add: fld_def league_row_def db_time_def)
  have "sample_db ''game_schedules'' = Some [league_row ''c1'' (JStr ''2025-06-04T09:00:00Z'')]"
    by (simp add: sample_db_def)
  then have "data (queryRows sample_parse sample_db (coach_game_query ''T1''))
     = Some [league_row ''c1'' (JStr ''2025-06-04T09:00:00Z'')]"
    by (simp add: queryRows_data limit_rows_def order_rows_def f)
  then show ?thesis
    by (simp add: f)
qed

end
